theory Spec2Isabelle
  imports Complex_Main "HOL-Library.Word"
begin

unbundle bit_operations_syntax

section \<open>JavaScript values used by the addon\<close>

text \<open>
  The model of \<^verbatim>\<open>src/OffscreenAddon.ts\<close>. Numbers that the code uses as integers (colour
  numbers, grid sizes, cursor positions, the results of \<^verbatim>\<open>Math.ceil\<close> and \<^verbatim>\<open>Math.round\<close>)
  are \<open>int\<close>: they stay below \<open>2 ^ 53\<close>, where integer arithmetic on doubles is exact, for
  every raster the canvas constructor accepts. Font sizes, line heights, scale factors and
  cell metrics are finite doubles, written as the \<open>real\<close> they denote, and their products
  round as IEEE 754 binary64 products do (\<open>fmul\<close>, below). A number that the caller hands
  in and that may be \<^verbatim>\<open>NaN\<close> or infinite (a scale factor, a quality) is a \<open>number\<close>. Colours
  are the strings the code handles, compared as strings.

  A non-negative integer in a template literal prints in decimal.
\<close>

definition digit_char :: "nat \<Rightarrow> char" where
  "digit_char d = ''0123456789'' ! d"

function nat_toString :: "nat \<Rightarrow> string" where
  "nat_toString n =
     (if n < 10 then [digit_char n]
      else nat_toString (n div 10) @ [digit_char (n mod 10)])"
  by pat_completeness auto
termination
  by (relation "measure id") auto

declare nat_toString.simps [simp del]

definition Number_toString :: "int \<Rightarrow> string" where
  "Number_toString i =
     (if i < 0 then CHR ''-'' # nat_toString (nat (- i)) else nat_toString (nat i))"

definition rgb_string :: "int \<Rightarrow> int \<Rightarrow> int \<Rightarrow> string" where
  "rgb_string r g b =
     ''rgb('' @ Number_toString r @ '', '' @ Number_toString g @ '', '' @
     Number_toString b @ '')''"

text \<open>\<^verbatim>\<open>DEFAULT_ANSI_COLORS\<close> and \<^verbatim>\<open>generate256Colors\<close>: the sixteen defaults, then the three
  nested loops over the levels, then the loop over the 24 greys, each pushing one colour.\<close>

definition DEFAULT_ANSI_COLORS :: "string list" where
  "DEFAULT_ANSI_COLORS =
     [''#000000'', ''#cd0000'', ''#00cd00'', ''#cdcd00'',
      ''#0000ee'', ''#cd00cd'', ''#00cdcd'', ''#e5e5e5'',
      ''#7f7f7f'', ''#ff0000'', ''#00ff00'', ''#ffff00'',
      ''#5c5cff'', ''#ff00ff'', ''#00ffff'', ''#ffffff'']"

definition levels :: "int list" where
  "levels = [0, 95, 135, 175, 215, 255]"

definition color_cube :: "string list" where
  "color_cube =
     concat (map (\<lambda>r.
       concat (map (\<lambda>g.
         map (\<lambda>b. rgb_string (levels ! r) (levels ! g) (levels ! b)) [0..<6])
       [0..<6]))
     [0..<6])"

definition grayscale :: "string list" where
  "grayscale = map (\<lambda>i. let v = 8 + int i * 10 in rgb_string v v v) [0..<24]"

definition generate256Colors :: "unit \<Rightarrow> string list" where
  "generate256Colors u = DEFAULT_ANSI_COLORS @ color_cube @ grayscale"

definition PALETTE_256 :: "string list" where
  "PALETTE_256 = generate256Colors ()"


section \<open>Nullish values and array reads\<close>

text \<open>\<^verbatim>\<open>a ?? d\<close>: the value when it is present, the default otherwise.\<close>

definition orElse :: "'a option \<Rightarrow> 'a \<Rightarrow> 'a" where
  "orElse a d = (case a of None \<Rightarrow> d | Some v \<Rightarrow> v)"

text \<open>\<^verbatim>\<open>xs[i]\<close> on a JavaScript array: \<open>None\<close> is \<^verbatim>\<open>undefined\<close>, the result of a read
  outside \<open>0 .. length - 1\<close>.\<close>

definition js_index :: "'a list \<Rightarrow> int \<Rightarrow> 'a option" where
  "js_index xs i = (if 0 \<le> i \<and> i < int (length xs) then Some (xs ! nat i) else None)"

text \<open>The bitwise operators work on the 32-bit two's complement image of their operands;
  \<^verbatim>\<open>>>\<close> is the sign-propagating shift.\<close>

definition ToInt32 :: "int \<Rightarrow> 32 word" where
  "ToInt32 i = word_of_int i"

definition js_shr :: "int \<Rightarrow> nat \<Rightarrow> int" where
  "js_shr a n = sint (signed_drop_bit n (ToInt32 a))"

definition js_and :: "int \<Rightarrow> int \<Rightarrow> int" where
  "js_and a b = sint (ToInt32 a AND ToInt32 b)"

subsection \<open>Doubles\<close>

text \<open>
  Rounding to the nearest double, ties to even. \<open>binade\<close> finds the exponent \<open>e\<close> with
  \<open>2 ^ 52 \<le> x / 2 ^ e < 2 ^ 53\<close> by doubling or halving, at most as often as its first
  argument says (no double needs more than 1126 steps); below \<open>- 1074\<close> the exponent stays
  at \<open>- 1074\<close>, which gives the subnormal numbers. No \<^verbatim>\<open>Infinity\<close> is produced: a product
  beyond the largest double is outside the model. A number written in decimal, such as
  \<^verbatim>\<open>0.6\<close>, is the double nearest to it, so the factors are rounded before the product is.
\<close>

definition pow2 :: "int \<Rightarrow> real" where
  "pow2 e = (if 0 \<le> e then 2 ^ nat e else 1 / 2 ^ nat (- e))"

definition round_even :: "real \<Rightarrow> int" where
  "round_even x =
     (let f = \<lfloor>x\<rfloor>; d = x - real_of_int f
      in if d < 1 / 2 then f else if 1 / 2 < d then f + 1 else if even f then f else f + 1)"

fun binade :: "nat \<Rightarrow> real \<Rightarrow> int \<Rightarrow> int" where
  "binade 0 x e = e"
| "binade (Suc n) x e =
     (if x < 2 ^ 52 then binade n (2 * x) (e - 1)
      else if 2 ^ 53 \<le> x then binade n (x / 2) (e + 1)
      else e)"

definition to_double :: "real \<Rightarrow> real" where
  "to_double x =
     (if x = 0 then 0
      else let e = max (binade 2200 \<bar>x\<bar> 0) (- 1074)
           in sgn x * real_of_int (round_even (\<bar>x\<bar> / pow2 e)) * pow2 e)"

text \<open>\<^verbatim>\<open>a * b\<close> on doubles.\<close>

definition fmul :: "real \<Rightarrow> real \<Rightarrow> real" where
  "fmul a b = to_double (to_double a * to_double b)"

text \<open>\<^verbatim>\<open>Math.ceil\<close> and \<^verbatim>\<open>Math.round\<close> of a finite double are exact; \<^verbatim>\<open>Math.round\<close> rounds a
  half towards plus infinity.\<close>

definition Math_ceil :: "real \<Rightarrow> int" where
  "Math_ceil x = \<lceil>x\<rceil>"

definition Math_round :: "real \<Rightarrow> int" where
  "Math_round x = \<lfloor>x + 1 / 2\<rfloor>"

subsection \<open>Numbers that need not be finite\<close>

text \<open>A \<^verbatim>\<open>number\<close> as a caller may pass it. \<^verbatim>\<open>Math.min\<close> and \<^verbatim>\<open>Math.max\<close> return \<^verbatim>\<open>NaN\<close> when an
  argument is \<^verbatim>\<open>NaN\<close>, and the smaller or larger argument otherwise.\<close>

datatype number = Finite real | PosInfinity | NegInfinity | NaN

definition Number_isFinite :: "number \<Rightarrow> bool" where
  "Number_isFinite v = (case v of Finite x \<Rightarrow> True | _ \<Rightarrow> False)"

definition number_le :: "number \<Rightarrow> number \<Rightarrow> bool" where
  "number_le a b =
     (case a of
        NaN \<Rightarrow> False
      | NegInfinity \<Rightarrow> b \<noteq> NaN
      | PosInfinity \<Rightarrow> b = PosInfinity
      | Finite x \<Rightarrow> (case b of Finite y \<Rightarrow> x \<le> y | PosInfinity \<Rightarrow> True | _ \<Rightarrow> False))"

definition Math_min :: "number \<Rightarrow> number \<Rightarrow> number" where
  "Math_min a b = (if a = NaN \<or> b = NaN then NaN else if number_le a b then a else b)"

definition Math_max :: "number \<Rightarrow> number \<Rightarrow> number" where
  "Math_max a b = (if a = NaN \<or> b = NaN then NaN else if number_le a b then b else a)"

section \<open>The terminal's interface\<close>

text \<open>
  What the addon reads of xterm: the theme, whose every entry may be missing; a cell, as
  the values its accessors return (the three colour-mode predicates of each channel are
  independent booleans here, as they are for the code); the active buffer with its
  lines and, as xterm's API gives them, the buffer line at the top of the viewport
  (\<^verbatim>\<open>viewportY\<close>), the buffer line at the top of the bottom page (\<^verbatim>\<open>baseY\<close>, where the viewport
  is when scrolled all the way down) and the cursor's column and row within the bottom page
  (\<^verbatim>\<open>cursorX\<close>, and \<^verbatim>\<open>cursorY\<close> between 0 and \<open>rows - 1\<close>, so that the cursor is on buffer line
  \<open>baseY + cursorY\<close>); the terminal's options and grid size; and the
  cell metrics of the render service (\<open>css_cell\<close>, width and height), when the terminal
  exposes them. \<^verbatim>\<open>getLine\<close> and \<^verbatim>\<open>getCell\<close> return \<^verbatim>\<open>undefined\<close> outside the buffer and the
  line.
\<close>

record ITheme =
  foreground :: "string option"
  background :: "string option"
  cursor :: "string option"
  black :: "string option"
  red :: "string option"
  green :: "string option"
  yellow :: "string option"
  blue :: "string option"
  magenta :: "string option"
  cyan :: "string option"
  white :: "string option"
  brightBlack :: "string option"
  brightRed :: "string option"
  brightGreen :: "string option"
  brightYellow :: "string option"
  brightBlue :: "string option"
  brightMagenta :: "string option"
  brightCyan :: "string option"
  brightWhite :: "string option"

definition empty_theme :: ITheme where
  "empty_theme =
     \<lparr>foreground = None, background = None, cursor = None, black = None, red = None,
      green = None, yellow = None, blue = None, magenta = None, cyan = None, white = None,
      brightBlack = None, brightRed = None, brightGreen = None, brightYellow = None,
      brightBlue = None, brightMagenta = None, brightCyan = None, brightWhite = None\<rparr>"

record IBufferCell =
  getChars :: string
  getWidth :: int
  getFgColor :: int
  getBgColor :: int
  isFgDefault :: bool
  isFgRGB :: bool
  isFgPalette :: bool
  isBgDefault :: bool
  isBgRGB :: bool
  isBgPalette :: bool
  isBold :: bool
  isItalic :: bool
  isDim :: bool
  isUnderline :: bool
  isStrikethrough :: bool
  isOverline :: bool
  isInverse :: bool

type_synonym IBufferLine = "IBufferCell list"

record IBuffer =
  viewportY :: int
  baseY :: int
  buffer_cursorX :: int
  buffer_cursorY :: int
  buffer_lines :: "IBufferLine list"

definition getLine :: "IBuffer \<Rightarrow> int \<Rightarrow> IBufferLine option" where
  "getLine buffer y = js_index (buffer_lines buffer) y"

definition getCell :: "IBufferLine \<Rightarrow> nat \<Rightarrow> IBufferCell option" where
  "getCell line x = js_index line (int x)"

record ITerminalOptions =
  opt_fontSize :: "real option"
  opt_fontFamily :: "string option"
  opt_lineHeight :: "real option"
  opt_theme :: "ITheme option"

record Terminal =
  cols :: int
  rows :: int
  options :: ITerminalOptions
  active :: IBuffer
  css_cell :: "(real \<times> real) option"

section \<open>The canvas\<close>

text \<open>
  A canvas has its size and an identity (\<open>ident\<close>), so that a canvas created anew differs
  from the one it replaces. Its 2D context is the drawing state the code sets (fill style,
  font, alpha, text baseline) and the list of what has been painted, each primitive with
  the state it was painted in: \<open>Rect style alpha x y w h\<close> and
  \<open>Text font style alpha baseline chars x y\<close>. Two contexts with the same list show the same
  pixels. Assigning \<^verbatim>\<open>undefined\<close> to \<^verbatim>\<open>fillStyle\<close> leaves the style as it was, as the canvas does
  with a value that is no colour; every string is taken to be a colour. \<^verbatim>\<open>getContext\<close> gives
  the initial state of a context and always succeeds.
\<close>

record OffscreenCanvas =
  width :: int
  height :: int
  ident :: nat

datatype prim =
  Rect string real real real real real
| Text string string real string string real real

record Context2D =
  fillStyle :: string
  font :: string
  globalAlpha :: real
  textBaseline :: string
  drawn :: "prim list"

definition getContext :: Context2D where
  "getContext =
     \<lparr>fillStyle = ''#000000'', font = ''10px sans-serif'', globalAlpha = 1,
      textBaseline = ''alphabetic'', drawn = []\<rparr>"

definition set_fillStyle :: "string option \<Rightarrow> Context2D \<Rightarrow> Context2D" where
  "set_fillStyle v ctx = (case v of None \<Rightarrow> ctx | Some c \<Rightarrow> ctx\<lparr>fillStyle := c\<rparr>)"

definition set_font :: "string \<Rightarrow> Context2D \<Rightarrow> Context2D" where
  "set_font f ctx = ctx\<lparr>font := f\<rparr>"

definition set_globalAlpha :: "real \<Rightarrow> Context2D \<Rightarrow> Context2D" where
  "set_globalAlpha a ctx = ctx\<lparr>globalAlpha := a\<rparr>"

definition set_textBaseline :: "string \<Rightarrow> Context2D \<Rightarrow> Context2D" where
  "set_textBaseline b ctx = ctx\<lparr>textBaseline := b\<rparr>"

definition fillRect :: "real \<Rightarrow> real \<Rightarrow> real \<Rightarrow> real \<Rightarrow> Context2D \<Rightarrow> Context2D" where
  "fillRect x y w h ctx =
     ctx\<lparr>drawn := drawn ctx @ [Rect (fillStyle ctx) (globalAlpha ctx) x y w h]\<rparr>"

definition fillText :: "string \<Rightarrow> real \<Rightarrow> real \<Rightarrow> Context2D \<Rightarrow> Context2D" where
  "fillText s x y ctx =
     ctx\<lparr>drawn := drawn ctx @
       [Text (font ctx) (fillStyle ctx) (globalAlpha ctx) (textBaseline ctx) s x y]\<rparr>"

text \<open>A statement guarded by a condition: \<^verbatim>\<open>if (b) { f }\<close> on the context.\<close>

definition guarded :: "bool \<Rightarrow> (Context2D \<Rightarrow> Context2D) \<Rightarrow> Context2D \<Rightarrow> Context2D" where
  "guarded b f ctx = (if b then f ctx else ctx)"

section \<open>The addon\<close>

text \<open>
  The fields of the class, with the terminal held as the snapshot the operation at hand
  reads, and \<open>allocations\<close> counting the canvases created so far (it names the next one).
  The reusable cell reference is an optimisation of the cell reads and is left out, as is
  the console warning of \<^verbatim>\<open>_validateScaleFactor\<close>.
\<close>

record IOffscreenAddonOptions =
  opt_scaleFactor :: "number option"
  opt_showCursor :: "bool option"

record RequiredOptions =
  scaleFactor :: real
  showCursor :: bool

record ICaptureOptions =
  format :: "string option"
  type :: "string option"
  quality :: "number option"

record OffscreenAddon =
  addon_terminal :: "Terminal option"
  addon_canvas :: "OffscreenCanvas option"
  addon_ctx :: "Context2D option"
  addon_options :: RequiredOptions
  cellWidth :: int
  cellHeight :: int
  charWidth :: int
  charHeight :: int
  allocations :: nat

definition validateScaleFactor :: "number \<Rightarrow> real" where
  "validateScaleFactor v =
     (if \<not> Number_isFinite v \<or> number_le v (Finite 0) then 1
      else (case v of Finite x \<Rightarrow> x | _ \<Rightarrow> 1))"

definition new_addon :: "IOffscreenAddonOptions option \<Rightarrow> OffscreenAddon" where
  "new_addon opts =
     \<lparr>addon_terminal = None, addon_canvas = None, addon_ctx = None,
      addon_options =
        \<lparr>scaleFactor =
           validateScaleFactor
             (orElse (case opts of None \<Rightarrow> None | Some p \<Rightarrow> opt_scaleFactor p) (Finite 1)),
         showCursor = orElse (case opts of None \<Rightarrow> None | Some p \<Rightarrow> opt_showCursor p) True\<rparr>,
      cellWidth = 0, cellHeight = 0, charWidth = 0, charHeight = 0, allocations = 0\<rparr>"

text \<open>\<^verbatim>\<open>_updateDimensions\<close>: the approximate metrics, overwritten by the exact ones when the
  render service has them with a positive width; then the canvas, created when there is
  none or its size differs.\<close>

definition updateDimensions :: "OffscreenAddon \<Rightarrow> OffscreenAddon" where
  "updateDimensions s =
     (case addon_terminal s of
        None \<Rightarrow> s
      | Some t \<Rightarrow>
          let scale = scaleFactor (addon_options s);
              fontSize = orElse (opt_fontSize (options t)) 13;
              lineHeight = orElse (opt_lineHeight (options t)) 1;
              s1 = s\<lparr>charWidth := Math_ceil (fmul (fmul fontSize 0.6) scale),
                     charHeight := Math_ceil (fmul (fmul fontSize lineHeight) scale)\<rparr>;
              s2 = s1\<lparr>cellWidth := charWidth s1, cellHeight := charHeight s1\<rparr>;
              s3 = (case css_cell t of
                      None \<Rightarrow> s2
                    | Some (w, h) \<Rightarrow>
                        if w > 0 then
                          let s' = s2\<lparr>cellWidth := Math_ceil (fmul w scale),
                                       cellHeight := Math_ceil (fmul h scale)\<rparr>
                          in s'\<lparr>charWidth := cellWidth s', charHeight := cellHeight s'\<rparr>
                        else s2);
              w = cols t * cellWidth s3;
              h = rows t * cellHeight s3
          in if (case addon_canvas s3 of
                   None \<Rightarrow> True
                 | Some c \<Rightarrow> width c \<noteq> w \<or> height c \<noteq> h)
             then s3\<lparr>addon_canvas := Some \<lparr>width = w, height = h, ident = allocations s3\<rparr>,
                     addon_ctx := Some getContext,
                     allocations := Suc (allocations s3)\<rparr>
             else s3)"

definition activate :: "Terminal \<Rightarrow> OffscreenAddon \<Rightarrow> OffscreenAddon" where
  "activate t s = updateDimensions (s\<lparr>addon_terminal := Some t\<rparr>)"

definition dispose :: "OffscreenAddon \<Rightarrow> OffscreenAddon" where
  "dispose s = s\<lparr>addon_terminal := None, addon_canvas := None, addon_ctx := None\<rparr>"

definition buildThemePalette :: "ITheme \<Rightarrow> string list" where
  "buildThemePalette theme =
     [orElse (black theme) (DEFAULT_ANSI_COLORS ! 0),
      orElse (red theme) (DEFAULT_ANSI_COLORS ! 1),
      orElse (green theme) (DEFAULT_ANSI_COLORS ! 2),
      orElse (yellow theme) (DEFAULT_ANSI_COLORS ! 3),
      orElse (blue theme) (DEFAULT_ANSI_COLORS ! 4),
      orElse (magenta theme) (DEFAULT_ANSI_COLORS ! 5),
      orElse (cyan theme) (DEFAULT_ANSI_COLORS ! 6),
      orElse (white theme) (DEFAULT_ANSI_COLORS ! 7),
      orElse (brightBlack theme) (DEFAULT_ANSI_COLORS ! 8),
      orElse (brightRed theme) (DEFAULT_ANSI_COLORS ! 9),
      orElse (brightGreen theme) (DEFAULT_ANSI_COLORS ! 10),
      orElse (brightYellow theme) (DEFAULT_ANSI_COLORS ! 11),
      orElse (brightBlue theme) (DEFAULT_ANSI_COLORS ! 12),
      orElse (brightMagenta theme) (DEFAULT_ANSI_COLORS ! 13),
      orElse (brightCyan theme) (DEFAULT_ANSI_COLORS ! 14),
      orElse (brightWhite theme) (DEFAULT_ANSI_COLORS ! 15)]"

text \<open>\<^verbatim>\<open>_getColor\<close>. The result is \<open>None\<close> where the code returns \<^verbatim>\<open>undefined\<close>: a palette
  number below 0 read from the theme band.\<close>

definition getColor :: "IBufferCell \<Rightarrow> bool \<Rightarrow> ITheme \<Rightarrow> string list \<Rightarrow> string option" where
  "getColor cell isForeground theme themePalette =
     (let color = (if isForeground then getFgColor cell else getBgColor cell) in
      if (if isForeground then isFgDefault cell else isBgDefault cell) then
        Some (if isForeground then orElse (foreground theme) ''#ffffff''
              else orElse (background theme) ''#000000'')
      else if (if isForeground then isFgRGB cell else isBgRGB cell) then
        (let r = js_and (js_shr color 16) 0xff;
             g = js_and (js_shr color 8) 0xff;
             b = js_and color 0xff
         in Some (rgb_string r g b))
      else if (if isForeground then isFgPalette cell else isBgPalette cell) then
        (if color < 16 then js_index themePalette color
         else Some (orElse (js_index PALETTE_256 color) ''#ffffff''))
      else
        Some (if isForeground then orElse (foreground theme) ''#ffffff''
              else orElse (background theme) ''#000000''))"


subsection \<open>Rendering\<close>

text \<open>The body of the inner loop of \<^verbatim>\<open>_render\<close> for one fetched cell, drawn at pixel
  position \<open>(x, y)\<close>.\<close>

definition render_cell ::
  "OffscreenAddon \<Rightarrow> ITheme \<Rightarrow> string list \<Rightarrow> int \<Rightarrow> string \<Rightarrow> int \<Rightarrow> int \<Rightarrow>
   IBufferCell \<Rightarrow> Context2D \<Rightarrow> Context2D" where
  "render_cell s theme themePalette fontSize fontFamily x y cell ctx =
     (let w = getWidth cell in
      if w = 0 then ctx
      else
        let fg = getColor cell True theme themePalette;
            bg = getColor cell False theme themePalette;
            fgColor = (if isInverse cell then bg else fg);
            bgColor = (if isInverse cell then fg else bg);
            defaultBg = orElse (background theme) ''#000000'';
            ctx1 = guarded (bgColor \<noteq> Some defaultBg)
                     (\<lambda>c. fillRect (real_of_int x) (real_of_int y)
                            (real_of_int (cellWidth s * w)) (real_of_int (cellHeight s))
                            (set_fillStyle bgColor c))
                     ctx;
            chars = getChars cell
        in if chars \<noteq> [] then
             let fontStyle = (if isBold cell then ''bold '' else []) @
                             (if isItalic cell then ''italic '' else []);
                 ctx2 = set_font (fontStyle @ Number_toString fontSize @ ''px '' @ fontFamily) ctx1;
                 ctx3 = set_fillStyle fgColor ctx2;
                 ctx4 = guarded (isDim cell) (set_globalAlpha 0.5) ctx3;
                 textY = real_of_int y + real_of_int (cellHeight s - fontSize) / 2;
                 ctx5 = fillText chars (real_of_int x) textY ctx4;
                 ctx6 = guarded (isDim cell) (set_globalAlpha 1.0) ctx5;
                 ctx7 = guarded (isUnderline cell)
                          (fillRect (real_of_int x) (real_of_int (y + cellHeight s - 1))
                             (real_of_int (cellWidth s * w)) 1)
                          ctx6;
                 ctx8 = guarded (isStrikethrough cell)
                          (fillRect (real_of_int x)
                             (real_of_int y + real_of_int (cellHeight s) / 2)
                             (real_of_int (cellWidth s * w)) 1)
                          ctx7;
                 ctx9 = guarded (isOverline cell)
                          (fillRect (real_of_int x) (real_of_int y)
                             (real_of_int (cellWidth s * w)) 1)
                          ctx8
             in ctx9
           else ctx1)"

text \<open>The inner loop, over the columns still to visit.\<close>

fun render_cols ::
  "OffscreenAddon \<Rightarrow> ITheme \<Rightarrow> string list \<Rightarrow> int \<Rightarrow> string \<Rightarrow> IBufferLine \<Rightarrow> int \<Rightarrow>
   nat list \<Rightarrow> Context2D \<Rightarrow> Context2D" where
  "render_cols s theme themePalette fontSize fontFamily line y [] ctx = ctx"
| "render_cols s theme themePalette fontSize fontFamily line y (col # rest) ctx =
     (case getCell line col of
        None \<Rightarrow> render_cols s theme themePalette fontSize fontFamily line y rest ctx
      | Some cell \<Rightarrow>
          render_cols s theme themePalette fontSize fontFamily line y rest
            (render_cell s theme themePalette fontSize fontFamily
               (int col * cellWidth s) y cell ctx))"

text \<open>The outer loop, over the viewport rows still to visit.\<close>

fun render_rows ::
  "OffscreenAddon \<Rightarrow> Terminal \<Rightarrow> ITheme \<Rightarrow> string list \<Rightarrow> int \<Rightarrow> string \<Rightarrow>
   nat list \<Rightarrow> Context2D \<Rightarrow> Context2D" where
  "render_rows s terminal theme themePalette fontSize fontFamily [] ctx = ctx"
| "render_rows s terminal theme themePalette fontSize fontFamily (row # rest) ctx =
     (let bufferRow = viewportY (active terminal) + int row in
      case getLine (active terminal) bufferRow of
        None \<Rightarrow> render_rows s terminal theme themePalette fontSize fontFamily rest ctx
      | Some line \<Rightarrow>
          render_rows s terminal theme themePalette fontSize fontFamily rest
            (render_cols s theme themePalette fontSize fontFamily line
               (int row * cellHeight s) [0..<nat (cols terminal)] ctx))"

text \<open>The cursor overlay at the end of \<^verbatim>\<open>_render\<close>.\<close>

definition render_cursor ::
  "OffscreenAddon \<Rightarrow> Terminal \<Rightarrow> ITheme \<Rightarrow> Context2D \<Rightarrow> Context2D" where
  "render_cursor s terminal theme ctx =
     (if showCursor (addon_options s) \<and> buffer_cursorY (active terminal) \<ge> 0 then
        let cursorX = buffer_cursorX (active terminal);
            cursorY = buffer_cursorY (active terminal)
        in if cursorX \<ge> 0 \<and> cursorX < cols terminal \<and> cursorY \<ge> 0 \<and> cursorY < rows terminal
           then
             let x = cursorX * cellWidth s;
                 y = cursorY * cellHeight s;
                 c1 = set_fillStyle (Some (orElse (cursor theme) ''#ffffff'')) ctx;
                 c2 = set_globalAlpha 0.5 c1;
                 c3 = fillRect (real_of_int x) (real_of_int y)
                        (real_of_int (cellWidth s)) (real_of_int (cellHeight s)) c2
             in set_globalAlpha 1.0 c3
           else ctx
      else ctx)"

text \<open>The frame before the cursor overlay: clear, font set-up and the two loops.\<close>

definition render_content ::
  "OffscreenAddon \<Rightarrow> Terminal \<Rightarrow> OffscreenCanvas \<Rightarrow> ITheme \<Rightarrow> Context2D \<Rightarrow> Context2D" where
  "render_content s terminal canvas theme ctx =
     (let themePalette = buildThemePalette theme;
          scale = scaleFactor (addon_options s);
          fontSize = Math_round (fmul (orElse (opt_fontSize (options terminal)) 13) scale);
          fontFamily = orElse (opt_fontFamily (options terminal))
                         ''courier-new, courier, monospace'';
          c1 = set_fillStyle (Some (orElse (background theme) ''#000000'')) ctx;
          c2 = fillRect 0 0 (real_of_int (width canvas)) (real_of_int (height canvas)) c1;
          c3 = set_textBaseline ''top'' c2;
          c4 = set_font (Number_toString fontSize @ ''px '' @ fontFamily) c3
      in render_rows s terminal theme themePalette fontSize fontFamily
           [0..<nat (rows terminal)] c4)"

text \<open>\<^verbatim>\<open>_render\<close>.\<close>

definition render :: "OffscreenAddon \<Rightarrow> OffscreenAddon" where
  "render s0 =
     (case addon_terminal s0 of
        None \<Rightarrow> s0
      | Some terminal \<Rightarrow>
          let s = updateDimensions s0 in
          case addon_canvas s of
            None \<Rightarrow> s
          | Some canvas \<Rightarrow>
              (case addon_ctx s of
                 None \<Rightarrow> s
               | Some ctx \<Rightarrow>
                   let theme = orElse (opt_theme (options terminal)) empty_theme;
                       c5 = render_content s terminal canvas theme ctx
                   in s\<lparr>addon_ctx := Some (render_cursor s terminal theme c5)\<rparr>))"

subsection \<open>The public operations\<close>

text \<open>The errors thrown, with their messages; a rejected promise is an error result.\<close>

datatype error = AddonNotActivated | FailedToCreateCanvas | UnknownFormat string

definition message :: "error \<Rightarrow> string" where
  "message e =
     (case e of
        AddonNotActivated \<Rightarrow> ''Addon not activated''
      | FailedToCreateCanvas \<Rightarrow> ''Failed to create canvas''
      | UnknownFormat f \<Rightarrow> ''Unknown format: '' @ f)"

text \<open>What an export hands back: the raster it was made from (the canvas and what was
  drawn on it) and, for the encoded formats, the MIME type and the quality given to the
  platform's encoder.\<close>

datatype exported =
  ImageBitmap OffscreenCanvas "Context2D option"
| DataURL OffscreenCanvas "Context2D option" string number
| Blob OffscreenCanvas "Context2D option" string number

definition capture ::
  "ICaptureOptions option \<Rightarrow> OffscreenAddon \<Rightarrow> (error + exported) \<times> OffscreenAddon" where
  "capture opts s0 =
     (if addon_terminal s0 = None then (Inl AddonNotActivated, s0)
      else
        let s = render s0 in
        case addon_canvas s of
          None \<Rightarrow> (Inl FailedToCreateCanvas, s)
        | Some canvas \<Rightarrow>
            let fmt = orElse (case opts of None \<Rightarrow> None | Some p \<Rightarrow> format p) ''imageBitmap'';
                ty = orElse (case opts of None \<Rightarrow> None | Some p \<Rightarrow> type p) ''image/png'';
                q = Math_max (Finite 0)
                      (Math_min (Finite 1)
                         (orElse (case opts of None \<Rightarrow> None | Some p \<Rightarrow> quality p)
                            (Finite 0.92)))
            in if fmt = ''imageBitmap'' then (Inr (ImageBitmap canvas (addon_ctx s)), s)
               else if fmt = ''dataURL'' then (Inr (DataURL canvas (addon_ctx s) ty q), s)
               else if fmt = ''blob'' then (Inr (Blob canvas (addon_ctx s) ty q), s)
               else (Inl (UnknownFormat fmt), s))"

definition getCanvas :: "OffscreenAddon \<Rightarrow> (error + OffscreenCanvas) \<times> OffscreenAddon" where
  "getCanvas s0 =
     (if addon_terminal s0 = None then (Inl AddonNotActivated, s0)
      else
        let s = render s0 in
        case addon_canvas s of
          None \<Rightarrow> (Inl FailedToCreateCanvas, s)
        | Some canvas \<Rightarrow> (Inr canvas, s))"

definition setOptions :: "IOffscreenAddonOptions \<Rightarrow> OffscreenAddon \<Rightarrow> OffscreenAddon" where
  "setOptions p s =
     (let s1 = (case opt_scaleFactor p of
                  None \<Rightarrow> s
                | Some v \<Rightarrow>
                    s\<lparr>addon_options := (addon_options s)\<lparr>scaleFactor := validateScaleFactor v\<rparr>\<rparr>);
          s2 = (case opt_showCursor p of
                  None \<Rightarrow> s1
                | Some b \<Rightarrow> s1\<lparr>addon_options := (addon_options s1)\<lparr>showCursor := b\<rparr>\<rparr>)
      in s2\<lparr>addon_canvas := None, addon_ctx := None\<rparr>)"

section \<open>Vocabulary of the properties\<close>

text \<open>The sixteen named theme slots, in the order of the theme band.\<close>

definition theme_slots :: "(ITheme \<Rightarrow> string option) list" where
  "theme_slots =
     [black, red, green, yellow, blue, magenta, cyan, white, brightBlack, brightRed,
      brightGreen, brightYellow, brightBlue, brightMagenta, brightCyan, brightWhite]"

text \<open>The colour descriptor of a cell on one channel, read through the same accessors and
  in the same order as \<^verbatim>\<open>_getColor\<close> tests them: the number, and which variant is active.
  A descriptor is \<open>Default\<close> when the default predicate holds, \<open>RGB\<close> when it does not and
  the RGB predicate holds, \<open>Palette\<close> when only the palette predicate holds.\<close>

definition colorOf :: "IBufferCell \<Rightarrow> bool \<Rightarrow> int" where
  "colorOf cell isForeground = (if isForeground then getFgColor cell else getBgColor cell)"

definition isDefault :: "IBufferCell \<Rightarrow> bool \<Rightarrow> bool" where
  "isDefault cell isForeground = (if isForeground then isFgDefault cell else isBgDefault cell)"

definition isRGB :: "IBufferCell \<Rightarrow> bool \<Rightarrow> bool" where
  "isRGB cell isForeground =
     ((if isForeground then isFgRGB cell else isBgRGB cell) \<and> \<not> isDefault cell isForeground)"

definition isPalette :: "IBufferCell \<Rightarrow> bool \<Rightarrow> bool" where
  "isPalette cell isForeground =
     ((if isForeground then isFgPalette cell else isBgPalette cell) \<and>
      \<not> (if isForeground then isFgRGB cell else isBgRGB cell) \<and> \<not> isDefault cell isForeground)"

definition defaultColor :: "ITheme \<Rightarrow> bool \<Rightarrow> string" where
  "defaultColor theme isForeground =
     (if isForeground then (case foreground theme of None \<Rightarrow> ''#ffffff'' | Some c \<Rightarrow> c)
      else (case background theme of None \<Rightarrow> ''#000000'' | Some c \<Rightarrow> c))"

text \<open>One green-level row and one red-level plane of the colour cube.\<close>

definition cube_row :: "nat \<Rightarrow> nat \<Rightarrow> string list" where
  "cube_row r g = map (\<lambda>b. rgb_string (levels ! r) (levels ! g) (levels ! b)) [0..<6]"

definition cube_plane :: "nat \<Rightarrow> string list" where
  "cube_plane r = concat (map (cube_row r) [0..<6])"

subsection \<open>Sample inputs\<close>

text \<open>A width-1 cell showing \<open>A\<close> in the default colours, and the same cell with another
  descriptor on one channel.\<close>

definition cell0 :: IBufferCell where
  "cell0 =
     \<lparr>getChars = ''A'', getWidth = 1, getFgColor = - 1, getBgColor = - 1,
      isFgDefault = True, isFgRGB = False, isFgPalette = False,
      isBgDefault = True, isBgRGB = False, isBgPalette = False,
      isBold = False, isItalic = False, isDim = False, isUnderline = False,
      isStrikethrough = False, isOverline = False, isInverse = False\<rparr>"

definition fgPalette :: "int \<Rightarrow> IBufferCell \<Rightarrow> IBufferCell" where
  "fgPalette i c = c\<lparr>getFgColor := i, isFgDefault := False, isFgRGB := False, isFgPalette := True\<rparr>"

definition fgRGB :: "int \<Rightarrow> IBufferCell \<Rightarrow> IBufferCell" where
  "fgRGB v c = c\<lparr>getFgColor := v, isFgDefault := False, isFgRGB := True, isFgPalette := False\<rparr>"

definition bgPalette :: "int \<Rightarrow> IBufferCell \<Rightarrow> IBufferCell" where
  "bgPalette i c = c\<lparr>getBgColor := i, isBgDefault := False, isBgRGB := False, isBgPalette := True\<rparr>"

definition bgRGB :: "int \<Rightarrow> IBufferCell \<Rightarrow> IBufferCell" where
  "bgRGB v c = c\<lparr>getBgColor := v, isBgDefault := False, isBgRGB := True, isBgPalette := False\<rparr>"

text \<open>The cell metrics \<^verbatim>\<open>_updateDimensions\<close> arrives at, as a function of what it reads:
  the exact metrics of the host's render service, scaled, when they are there and the
  width is positive; the font-ratio approximation otherwise.\<close>

definition computeLayout :: "Terminal \<Rightarrow> real \<Rightarrow> int \<times> int" where
  "computeLayout t scale =
     (let fontSize = (case opt_fontSize (options t) of None \<Rightarrow> 13 | Some v \<Rightarrow> v);
          lineHeight = (case opt_lineHeight (options t) of None \<Rightarrow> 1 | Some v \<Rightarrow> v);
          approx = (Math_ceil (fmul (fmul fontSize 0.6) scale),
                    Math_ceil (fmul (fmul fontSize lineHeight) scale))
      in case css_cell t of
           None \<Rightarrow> approx
         | Some (w, h) \<Rightarrow>
             if w > 0 then (Math_ceil (fmul w scale), Math_ceil (fmul h scale)) else approx)"

text \<open>A terminal of two columns and one row showing \<open>AA\<close>, every option left to its
  default, scrolled to the bottom with the cursor on the first cell; and an addon activated
  on it.\<close>

definition term0 :: Terminal where
  "term0 =
     \<lparr>cols = 2, rows = 1,
      options = \<lparr>opt_fontSize = None, opt_fontFamily = None, opt_lineHeight = None,
                 opt_theme = None\<rparr>,
      active = \<lparr>viewportY = 0, baseY = 0, buffer_cursorX = 0, buffer_cursorY = 0,
                buffer_lines = [[cell0, cell0]]\<rparr>,
      css_cell = None\<rparr>"

definition addon0 :: OffscreenAddon where
  "addon0 = activate term0 (new_addon None)"

text \<open>A terminal of one column and one row with a font size of 25 and a line height of 1.1,
  where the rounding of the products shows: \<^verbatim>\<open>25 * 1.1 * 2\<close> is \<^verbatim>\<open>55.00000000000001\<close>.\<close>

definition term1 :: Terminal where
  "term1 =
     \<lparr>cols = 1, rows = 1,
      options = \<lparr>opt_fontSize = Some 25, opt_fontFamily = None, opt_lineHeight = Some 1.1,
                 opt_theme = None\<rparr>,
      active = \<lparr>viewportY = 0, baseY = 0, buffer_cursorX = 0, buffer_cursorY = 0,
                buffer_lines = [[cell0]]\<rparr>,
      css_cell = None\<rparr>"

definition addon1 :: OffscreenAddon where
  "addon1 = activate term1 (new_addon None)"

text \<open>The two-column terminal with one line of scrollback, the view scrolled back onto
  it: the viewport shows buffer line 0, the bottom page is buffer line 1 and the cursor is
  there.\<close>

definition term_scrolled :: Terminal where
  "term_scrolled =
     \<lparr>cols = 2, rows = 1,
      options = \<lparr>opt_fontSize = None, opt_fontFamily = None, opt_lineHeight = None,
                 opt_theme = None\<rparr>,
      active = \<lparr>viewportY = 0, baseY = 1, buffer_cursorX = 0, buffer_cursorY = 0,
                buffer_lines = [[cell0, cell0], [cell0, cell0]]\<rparr>,
      css_cell = None\<rparr>"

definition addon_scrolled :: OffscreenAddon where
  "addon_scrolled = activate term_scrolled (new_addon None)"

text \<open>The formats \<^verbatim>\<open>capture\<close> knows.\<close>

definition supported_formats :: "string set" where
  "supported_formats = {''imageBitmap'', ''dataURL'', ''blob''}"

text \<open>A quality within \<open>[0, 1]\<close>, and the clamp of a quality that is not \<^verbatim>\<open>NaN\<close> into it.\<close>

definition in_unit_interval :: "number \<Rightarrow> bool" where
  "in_unit_interval q = (case q of Finite x \<Rightarrow> 0 \<le> x \<and> x \<le> 1 | _ \<Rightarrow> False)"

definition clamp01 :: "number \<Rightarrow> number" where
  "clamp01 q =
     (case q of
        Finite x \<Rightarrow> Finite (if x < 0 then 0 else if x > 1 then 1 else x)
      | PosInfinity \<Rightarrow> Finite 1
      | NegInfinity \<Rightarrow> Finite 0
      | NaN \<Rightarrow> NaN)"

text \<open>The canvas and its context go together: a state with a canvas has a context for
  it. The constructor establishes this and every operation keeps it.\<close>

definition paired :: "OffscreenAddon \<Rightarrow> bool" where
  "paired s = (addon_canvas s = None \<or> addon_ctx s \<noteq> None)"

text \<open>What has been drawn on the raster once \<^verbatim>\<open>_render\<close> has run.\<close>

definition frame :: "OffscreenAddon \<Rightarrow> prim list" where
  "frame s = (case addon_ctx (render s) of None \<Rightarrow> [] | Some c \<Rightarrow> drawn c)"

definition hide_cursor :: "OffscreenAddon \<Rightarrow> OffscreenAddon" where
  "hide_cursor s = s\<lparr>addon_options := (addon_options s)\<lparr>showCursor := False\<rparr>\<rparr>"

definition move_cursor :: "int \<Rightarrow> int \<Rightarrow> Terminal \<Rightarrow> Terminal" where
  "move_cursor x y t = t\<lparr>active := (active t)\<lparr>buffer_cursorX := x, buffer_cursorY := y\<rparr>\<rparr>"

text \<open>The test the code makes before painting the cursor: \<^verbatim>\<open>cursorX\<close> and \<^verbatim>\<open>cursorY\<close> as
  they are read lie in \<open>[0, cols)\<close> and \<open>[0, rows)\<close>.\<close>

definition cursor_test :: "Terminal \<Rightarrow> bool" where
  "cursor_test t =
     (0 \<le> buffer_cursorX (active t) \<and> buffer_cursorX (active t) < cols t \<and>
      0 \<le> buffer_cursorY (active t) \<and> buffer_cursorY (active t) < rows t)"

text \<open>The cursor's row relative to the viewport: its buffer line \<open>baseY + cursorY\<close>, counted
  from the line at the top of the viewport. The cursor is in the viewport when its column
  and this row lie in \<open>[0, cols)\<close> and \<open>[0, rows)\<close>.\<close>

definition cursor_viewport_row :: "Terminal \<Rightarrow> int" where
  "cursor_viewport_row t = baseY (active t) + buffer_cursorY (active t) - viewportY (active t)"

definition cursor_in_viewport :: "Terminal \<Rightarrow> bool" where
  "cursor_in_viewport t =
     (0 \<le> buffer_cursorX (active t) \<and> buffer_cursorX (active t) < cols t \<and>
      0 \<le> cursor_viewport_row t \<and> cursor_viewport_row t < rows t)"

text \<open>The highlight as the code paints it: a rectangle of one cell at column \<^verbatim>\<open>cursorX\<close> and
  viewport row \<^verbatim>\<open>cursorY\<close>, in the theme's cursor colour, at half alpha.\<close>

definition cursor_rect :: "Terminal \<Rightarrow> int \<Rightarrow> int \<Rightarrow> prim" where
  "cursor_rect t cw ch =
     Rect (case cursor (orElse (opt_theme (options t)) empty_theme) of
             None \<Rightarrow> ''#ffffff'' | Some c \<Rightarrow> c)
       (1 / 2)
       (real_of_int (buffer_cursorX (active t) * cw)) (real_of_int (buffer_cursorY (active t) * ch))
       (real_of_int cw) (real_of_int ch)"

text \<open>What one cell of non-zero width paints, in order: the background rectangle when
  the background colour is not the theme's default, then, when the cell has a glyph, the
  glyph and the underline, strikethrough and overline it carries. \<open>fgColor\<close> and \<open>bgColor\<close>
  are the colours after the inverse swap; assigning \<^verbatim>\<open>undefined\<close> to the fill style leaves
  the style it had.\<close>

definition cell_draws ::
  "OffscreenAddon \<Rightarrow> ITheme \<Rightarrow> int \<Rightarrow> string \<Rightarrow> int \<Rightarrow> int \<Rightarrow> IBufferCell \<Rightarrow>
   string option \<Rightarrow> string option \<Rightarrow> Context2D \<Rightarrow> prim list" where
  "cell_draws s theme fontSize fontFamily x y cell fgColor bgColor ctx =
     (let paint = (bgColor \<noteq> Some (defaultColor theme False));
          bgStyle = (case bgColor of None \<Rightarrow> fillStyle ctx | Some c \<Rightarrow> c);
          fgStyle = (case fgColor of
                       None \<Rightarrow> if paint then bgStyle else fillStyle ctx
                     | Some c \<Rightarrow> c);
          w = real_of_int (cellWidth s * getWidth cell);
          h = real_of_int (cellHeight s);
          a0 = globalAlpha ctx;
          a1 = (if isDim cell then 1 else a0);
          fnt = (if isBold cell then ''bold '' else []) @
                (if isItalic cell then ''italic '' else []) @
                Number_toString fontSize @ ''px '' @ fontFamily
      in (if paint then [Rect bgStyle a0 (real_of_int x) (real_of_int y) w h] else []) @
         (if getChars cell \<noteq> [] then
            [Text fnt fgStyle (if isDim cell then 1 / 2 else a0) (textBaseline ctx)
               (getChars cell) (real_of_int x)
               (real_of_int y + real_of_int (cellHeight s - fontSize) / 2)] @
            (if isUnderline cell
             then [Rect fgStyle a1 (real_of_int x) (real_of_int (y + cellHeight s - 1)) w 1]
             else []) @
            (if isStrikethrough cell
             then [Rect fgStyle a1 (real_of_int x)
                     (real_of_int y + real_of_int (cellHeight s) / 2) w 1]
             else []) @
            (if isOverline cell
             then [Rect fgStyle a1 (real_of_int x) (real_of_int y) w 1]
             else [])
          else []))"

text \<open>A primitive that starts at pixel column \<open>x\<close> and, when it is a rectangle, is \<open>w\<close>
  pixels wide.\<close>

definition spans :: "real \<Rightarrow> real \<Rightarrow> prim \<Rightarrow> bool" where
  "spans x w p =
     (case p of
        Rect st a x' y' w' h' \<Rightarrow> x' = x \<and> w' = w
      | Text f st a b cs x' y' \<Rightarrow> x' = x)"

text \<open>A cell as it differs from another in the inverse flag and the colour descriptors
  only.\<close>

definition recolor ::
  "bool \<Rightarrow> int \<Rightarrow> bool \<Rightarrow> bool \<Rightarrow> bool \<Rightarrow> int \<Rightarrow> bool \<Rightarrow> bool \<Rightarrow> bool \<Rightarrow>
   IBufferCell \<Rightarrow> IBufferCell" where
  "recolor iv fc fd fr fp bc bd br bp c =
     c\<lparr>isInverse := iv,
       getFgColor := fc, isFgDefault := fd, isFgRGB := fr, isFgPalette := fp,
       getBgColor := bc, isBgDefault := bd, isBgRGB := br, isBgPalette := bp\<rparr>"

text \<open>The glyph of a cell as \<^verbatim>\<open>fillText\<close> paints it in colour \<open>color\<close>.\<close>

definition glyph ::
  "OffscreenAddon \<Rightarrow> int \<Rightarrow> string \<Rightarrow> int \<Rightarrow> int \<Rightarrow> IBufferCell \<Rightarrow> string \<Rightarrow> Context2D \<Rightarrow> prim" where
  "glyph s fontSize fontFamily x y cell color ctx =
     Text ((if isBold cell then ''bold '' else []) @ (if isItalic cell then ''italic '' else []) @
           Number_toString fontSize @ ''px '' @ fontFamily)
       color (if isDim cell then 1 / 2 else globalAlpha ctx) (textBaseline ctx) (getChars cell)
       (real_of_int x) (real_of_int y + real_of_int (cellHeight s - fontSize) / 2)"

text \<open>A wide cell with its continuation, and an inverse cell with direct colours.\<close>

definition wide_cell :: IBufferCell where
  "wide_cell = cell0\<lparr>getChars := ''W'', getWidth := 2, isUnderline := True\<rparr>"

definition continuation_cell :: IBufferCell where
  "continuation_cell = cell0\<lparr>getChars := [], getWidth := 0\<rparr>"

definition inverse_cell :: IBufferCell where
  "inverse_cell = (bgRGB 0x0000ff (fgRGB 0xff0000 cell0))\<lparr>isInverse := True\<rparr>"

text \<open>\<open>ds\<close> is the decimal numeral of \<open>n\<close>: digits only, no leading zero, of value \<open>n\<close>.\<close>

definition decimal :: "string \<Rightarrow> int \<Rightarrow> bool" where
  "decimal ds n =
     (ds \<noteq> [] \<and> set ds \<subseteq> set ''0123456789'' \<and> (ds = ''0'' \<or> hd ds \<noteq> CHR ''0'') \<and>
      foldl (\<lambda>a c. 10 * a + (int (of_char c) - 48)) 0 ds = n)"

section \<open>Numbers and bits\<close>

text \<open>On every integer, the shift-and-mask of \<^verbatim>\<open>_getColor\<close> selects one byte: the 32-bit
  wrap-around never reaches bits 0 to 23.\<close>

lemma m255: "(255::32 word) = mask 8" by (simp add: mask_eq_exp_minus_1)

lemma chan_word:
  "n + 8 \<le> 32 \<Longrightarrow>
   sint (signed_drop_bit n (word_of_int v :: 32 word) AND mask 8) = take_bit 8 (drop_bit n v)"
  by (rule bit_eqI) (auto simp add: bit_simps)

lemma js_channel:
  "n + 8 \<le> 32 \<Longrightarrow> js_and (js_shr v n) 0xff = (v div 2 ^ n) mod 256"
  unfolding js_and_def js_shr_def ToInt32_def
  by (simp add: m255 chan_word take_bit_eq_mod drop_bit_eq_div)

lemma js_low: "js_and v 0xff = v mod 256"
  using js_channel [of 0 v] by (simp add: js_and_def js_shr_def ToInt32_def)


lemma rgb_0: "rgb_string 0 0 0 = ''rgb(0, 0, 0)''"
  by (simp add: rgb_string_def Number_toString_def nat_toString.simps digit_char_def)

lemma rgb_8: "rgb_string 8 8 8 = ''rgb(8, 8, 8)''"
  by (simp add: rgb_string_def Number_toString_def nat_toString.simps digit_char_def)

lemma rgb_238: "rgb_string 238 238 238 = ''rgb(238, 238, 238)''"
  by (simp add: rgb_string_def Number_toString_def nat_toString.simps digit_char_def)

text \<open>What \<open>Number_toString\<close> prints for a non-negative integer is its decimal numeral.\<close>

lemma digit_char_cases:
  assumes "d < 10"
  shows "int (of_char (digit_char d)) - 48 = int d"
    and "digit_char d \<in> set ''0123456789''"
    and "(digit_char d = CHR ''0'') = (d = 0)"
proof -
  from assms have "d = 0 \<or> d = 1 \<or> d = 2 \<or> d = 3 \<or> d = 4 \<or> d = 5 \<or> d = 6 \<or> d = 7 \<or>
    d = 8 \<or> d = 9"
    by arith
  then show "int (of_char (digit_char d)) - 48 = int d"
    and "digit_char d \<in> set ''0123456789''"
    and "(digit_char d = CHR ''0'') = (d = 0)"
    by (auto simp add: digit_char_def)
qed

lemma decimal_nat_toString: "decimal (nat_toString n) (int n)"
proof (induction n rule: nat_toString.induct)
  case (1 n)
  show ?case
  proof (cases "n < 10")
    case True
    then have "nat_toString n = [digit_char n]"
      by (subst nat_toString.simps) simp
    then show ?thesis
      using digit_char_cases [OF True] by (auto simp add: decimal_def)
  next
    case False
    let ?p = "nat_toString (n div 10)"
    let ?d = "digit_char (n mod 10)"
    have eq: "nat_toString n = ?p @ [?d]"
      using False by (subst nat_toString.simps) simp
    have m: "n mod 10 < 10" by simp
    from "1.IH" False have IH: "decimal ?p (int (n div 10))" by simp
    have pos: "0 < n div 10" using False by simp
    from IH pos have hd: "hd ?p \<noteq> CHR ''0''" and ne: "?p \<noteq> []"
      by (auto simp add: decimal_def)
    from IH have v: "foldl (\<lambda>a c. 10 * a + (int (of_char c) - 48)) 0 ?p = int (n div 10)"
      and st: "set ?p \<subseteq> set ''0123456789''"
      by (simp_all add: decimal_def)
    have "foldl (\<lambda>a c. 10 * a + (int (of_char c) - 48)) 0 (?p @ [?d]) =
          10 * int (n div 10) + int (n mod 10)"
      using v digit_char_cases(1) [OF m] by simp
    also have "\<dots> = int n" by presburger
    finally have v': "foldl (\<lambda>a c. 10 * a + (int (of_char c) - 48)) 0 (?p @ [?d]) = int n" .
    have "decimal (?p @ [?d]) (int n)"
      unfolding decimal_def
      using ne hd st digit_char_cases(2) [OF m] v' by simp
    then show ?thesis by (simp only: eq)
  qed
qed

lemma decimal_Number_toString: "0 \<le> i \<Longrightarrow> decimal (Number_toString i) i"
  using decimal_nat_toString [of "nat i"] by (simp add: Number_toString_def)

lemma rgb_string_decimal:
  assumes "0 \<le> r" "0 \<le> g" "0 \<le> b"
  shows "\<exists>dr dg db. rgb_string r g b = ''rgb('' @ dr @ '', '' @ dg @ '', '' @ db @ '')'' \<and>
           decimal dr r \<and> decimal dg g \<and> decimal db b"
  using assms decimal_Number_toString unfolding rgb_string_def by blast

lemma rgb_literals:
  "rgb_string 18 52 86 = ''rgb(18, 52, 86)''"
  "rgb_string 9 7 0 = ''rgb(9, 7, 0)''"
  "rgb_string 255 43 94 = ''rgb(255, 43, 94)''"
  by (simp_all add: rgb_string_def Number_toString_def nat_toString.simps digit_char_def)

section \<open>The built-in palette\<close>

text \<open>Reading a concatenation of equally long blocks.\<close>

lemma length_concat_blocks:
  "(\<And>x. x \<in> set xs \<Longrightarrow> length (f x) = n) \<Longrightarrow> length (concat (map f xs)) = length xs * n"
  by (induction xs) auto

lemma nth_concat_blocks:
  "\<lbrakk>\<And>x. x \<in> set xs \<Longrightarrow> length (f x) = n; i < length xs; j < n\<rbrakk>
   \<Longrightarrow> concat (map f xs) ! (i * n + j) = f (xs ! i) ! j"
proof (induction xs arbitrary: i)
  case Nil then show ?case by simp
next
  case (Cons x xs)
  show ?case
  proof (cases i)
    case 0
    with Cons.prems show ?thesis by (simp add: nth_append)
  next
    case (Suc k)
    with Cons.prems have "concat (map f xs) ! (k * n + j) = f (xs ! k) ! j"
      by (intro Cons.IH) auto
    with Suc Cons.prems show ?thesis by (simp add: nth_append add.assoc)
  qed
qed


subsection \<open>The colour cube and the grey ramp\<close>

lemma color_cube_planes: "color_cube = concat (map cube_plane [0..<6])"
  unfolding color_cube_def cube_plane_def cube_row_def ..

lemma length_cube_row: "length (cube_row r g) = 6"
  by (simp add: cube_row_def)

lemma length_cube_plane: "length (cube_plane r) = 36"
  unfolding cube_plane_def
  using length_concat_blocks [of "[0..<6]" "cube_row r" 6] by (simp add: length_cube_row)

lemma length_color_cube: "length color_cube = 216"
  unfolding color_cube_planes
  using length_concat_blocks [of "[0..<6]" cube_plane 36] by (simp add: length_cube_plane)

lemma nth_cube_plane:
  assumes "g < 6" "b < 6"
  shows "cube_plane r ! (g * 6 + b) = rgb_string (levels ! r) (levels ! g) (levels ! b)"
proof -
  have "cube_plane r ! (g * 6 + b) = cube_row r ([0..<6] ! g) ! b"
    unfolding cube_plane_def using assms
    by (intro nth_concat_blocks) (simp_all add: length_cube_row)
  also have "\<dots> = rgb_string (levels ! r) (levels ! g) (levels ! b)"
    using assms by (simp add: cube_row_def)
  finally show ?thesis .
qed

lemma nth_color_cube:
  assumes "r < 6" "g < 6" "b < 6"
  shows "color_cube ! (r * 36 + (g * 6 + b)) = rgb_string (levels ! r) (levels ! g) (levels ! b)"
proof -
  have "g * 6 + b < 36" using assms by simp
  then have "color_cube ! (r * 36 + (g * 6 + b)) = cube_plane ([0..<6] ! r) ! (g * 6 + b)"
    unfolding color_cube_planes using assms
    by (intro nth_concat_blocks) (simp_all add: length_cube_plane)
  also have "\<dots> = rgb_string (levels ! r) (levels ! g) (levels ! b)"
    using assms by (simp add: nth_cube_plane)
  finally show ?thesis .
qed

lemma length_DEFAULT_ANSI_COLORS: "length DEFAULT_ANSI_COLORS = 16"
  by (simp add: DEFAULT_ANSI_COLORS_def)

lemma length_grayscale: "length grayscale = 24"
  by (simp add: grayscale_def)

lemma length_PALETTE_256: "length PALETTE_256 = 256"
  by (simp add: PALETTE_256_def generate256Colors_def length_DEFAULT_ANSI_COLORS
      length_color_cube length_grayscale)

lemma PALETTE_256_ansi: "i < 16 \<Longrightarrow> PALETTE_256 ! i = DEFAULT_ANSI_COLORS ! i"
  by (simp add: PALETTE_256_def generate256Colors_def nth_append length_DEFAULT_ANSI_COLORS)

lemma PALETTE_256_cube:
  assumes "r < 6" "g < 6" "b < 6"
  shows "PALETTE_256 ! (16 + 36 * r + 6 * g + b) =
         rgb_string (levels ! r) (levels ! g) (levels ! b)"
proof -
  have lt: "r * 36 + (g * 6 + b) < 216" using assms by simp
  have idx: "16 + 36 * r + 6 * g + b = 16 + (r * 36 + (g * 6 + b))" by simp
  have "PALETTE_256 ! (16 + (r * 36 + (g * 6 + b))) = color_cube ! (r * 36 + (g * 6 + b))"
    using lt
    by (simp only: PALETTE_256_def generate256Colors_def nth_append
        length_DEFAULT_ANSI_COLORS length_color_cube) simp
  then have "PALETTE_256 ! (16 + 36 * r + 6 * g + b) = color_cube ! (r * 36 + (g * 6 + b))"
    by (simp only: idx)
  then show ?thesis using assms by (simp add: nth_color_cube)
qed

lemma PALETTE_256_gray:
  assumes "k < 24"
  shows "PALETTE_256 ! (232 + k) = rgb_string (8 + 10 * int k) (8 + 10 * int k) (8 + 10 * int k)"
proof -
  have "PALETTE_256 ! (232 + k) = grayscale ! k"
    by (simp add: PALETTE_256_def generate256Colors_def nth_append
        length_DEFAULT_ANSI_COLORS length_color_cube)
  also have "\<dots> = rgb_string (8 + 10 * int k) (8 + 10 * int k) (8 + 10 * int k)"
    using assms by (simp add: grayscale_def Let_def mult.commute)
  finally show ?thesis .
qed

lemma js_index_PALETTE_256_in:
  "16 \<le> i \<Longrightarrow> i \<le> 255 \<Longrightarrow> js_index PALETTE_256 i = Some (PALETTE_256 ! nat i)"
  by (simp add: js_index_def length_PALETTE_256)

lemma js_index_PALETTE_256_out: "255 < i \<Longrightarrow> js_index PALETTE_256 i = None"
  by (simp add: js_index_def length_PALETTE_256)

lemma js_index_negative: "i < 0 \<Longrightarrow> js_index xs i = None"
  by (simp add: js_index_def)


text \<open>C2. The built-in palette has 256 entries and is the same value however often it is
  computed. Entries 0 to 15 are the sixteen ANSI defaults; entry \<open>16 + 36 r + 6 g + b\<close> is
  the cube colour at levels \<open>r\<close>, \<open>g\<close>, \<open>b\<close> of 0, 95, 135, 175, 215, 255; entry \<open>232 + k\<close>
  is the grey of value \<open>8 + 10 k\<close>. In particular entry 16 is \<^verbatim>\<open>rgb(0, 0, 0)\<close>, entry 232 is
  \<^verbatim>\<open>rgb(8, 8, 8)\<close> and entry 255 is \<^verbatim>\<open>rgb(238, 238, 238)\<close>.\<close>

theorem generate256Colors_layout:
  "length (generate256Colors ()) = 256 \<and>
   PALETTE_256 = generate256Colors () \<and>
   (\<forall>u v. generate256Colors u = generate256Colors v) \<and>
   (\<forall>i<16. generate256Colors () ! i = DEFAULT_ANSI_COLORS ! i) \<and>
   (\<forall>r<6. \<forall>g<6. \<forall>b<6.
      generate256Colors () ! (16 + 36 * r + 6 * g + b) =
      rgb_string (levels ! r) (levels ! g) (levels ! b)) \<and>
   levels = [0, 95, 135, 175, 215, 255] \<and>
   (\<forall>k<24. generate256Colors () ! (232 + k) =
      rgb_string (8 + 10 * int k) (8 + 10 * int k) (8 + 10 * int k)) \<and>
   generate256Colors () ! 16 = ''rgb(0, 0, 0)'' \<and>
   generate256Colors () ! 232 = ''rgb(8, 8, 8)'' \<and>
   generate256Colors () ! 255 = ''rgb(238, 238, 238)''"
proof -
  have P: "generate256Colors () = PALETTE_256" by (simp add: PALETTE_256_def)
  have c16: "PALETTE_256 ! 16 = ''rgb(0, 0, 0)''"
    using PALETTE_256_cube [of 0 0 0] by (simp add: levels_def rgb_0)
  have c232: "PALETTE_256 ! 232 = ''rgb(8, 8, 8)''"
    using PALETTE_256_gray [of 0] by (simp add: rgb_8)
  have c255: "PALETTE_256 ! 255 = ''rgb(238, 238, 238)''"
    using PALETTE_256_gray [of 23] by (simp add: rgb_238)
  show ?thesis
    unfolding P
    by (intro conjI allI impI length_PALETTE_256 PALETTE_256_ansi PALETTE_256_cube
        PALETTE_256_gray c16 c232 c255 levels_def refl) (simp_all add: PALETTE_256_def)
qed

theorem generate256Colors_layout_witness:
  "(1::nat) < 16 \<and> generate256Colors () ! 1 = ''#cd0000'' \<and>
   (5::nat) < 6 \<and> (0::nat) < 6 \<and> (1::nat) < 6 \<and>
   generate256Colors () ! 197 = ''rgb(255, 0, 95)'' \<and>
   (23::nat) < 24 \<and> generate256Colors () ! 255 = ''rgb(238, 238, 238)''"
proof -
  have ansi: "\<forall>i<16. generate256Colors () ! i = DEFAULT_ANSI_COLORS ! i"
    using generate256Colors_layout by (elim conjE)
  have cube: "\<forall>r<6. \<forall>g<6. \<forall>b<6.
      generate256Colors () ! (16 + 36 * r + 6 * g + b) =
      rgb_string (levels ! r) (levels ! g) (levels ! b)"
    using generate256Colors_layout by (elim conjE)
  have gray: "\<forall>k<24. generate256Colors () ! (232 + k) =
      rgb_string (8 + 10 * int k) (8 + 10 * int k) (8 + 10 * int k)"
    using generate256Colors_layout by (elim conjE)
  have a: "generate256Colors () ! 1 = DEFAULT_ANSI_COLORS ! 1"
    using ansi [rule_format, of 1] by simp
  have b: "generate256Colors () ! (16 + 36 * 5 + 6 * 0 + 1) =
           rgb_string (levels ! 5) (levels ! 0) (levels ! 1)"
    using cube [rule_format, of 5 0 1] by simp
  have c: "generate256Colors () ! 255 = ''rgb(238, 238, 238)''"
    using gray [rule_format, of 23] by (simp add: rgb_238)
  have d: "rgb_string 255 0 95 = ''rgb(255, 0, 95)''"
    by (simp add: rgb_string_def Number_toString_def nat_toString.simps digit_char_def)
  from a have a': "generate256Colors () ! 1 = ''#cd0000''"
    by (simp add: DEFAULT_ANSI_COLORS_def)
  from b d have b': "generate256Colors () ! 197 = ''rgb(255, 0, 95)''"
    by (simp add: levels_def)
  from a' b' c show ?thesis by simp
qed


section \<open>Colour resolution\<close>

lemma buildThemePalette_map:
  "buildThemePalette theme =
     map (\<lambda>k. case (theme_slots ! k) theme of None \<Rightarrow> DEFAULT_ANSI_COLORS ! k | Some c \<Rightarrow> c) [0..<16]"
proof -
  have "[0..<16] = [0, 1, 2, 3, 4, 5, 6, 7, 8, 9, 10, 11, 12, 13, 14, 15]"
    by code_simp
  then show ?thesis
    by (simp add: buildThemePalette_def theme_slots_def orElse_def)
qed

lemma length_buildThemePalette: "length (buildThemePalette theme) = 16"
  by (simp add: buildThemePalette_def)

lemma themeBand_entry:
  assumes "0 \<le> i" "i < 16"
  shows "js_index (buildThemePalette theme) i =
         Some (case (theme_slots ! nat i) theme of None \<Rightarrow> DEFAULT_ANSI_COLORS ! nat i | Some c \<Rightarrow> c)"
proof -
  have "nat i < 16" using assms by simp
  then have "buildThemePalette theme ! nat i =
      (case (theme_slots ! nat i) theme of None \<Rightarrow> DEFAULT_ANSI_COLORS ! nat i | Some c \<Rightarrow> c)"
    unfolding buildThemePalette_map by (simp cong: option.case_cong)
  then show ?thesis using assms by (simp add: js_index_def length_buildThemePalette)
qed

lemma getColor_default:
  "isDefault cell fg \<Longrightarrow> getColor cell fg theme tp = Some (defaultColor theme fg)"
  by (simp add: getColor_def isDefault_def defaultColor_def orElse_def)

lemma getColor_none:
  "\<not> isDefault cell fg \<Longrightarrow> \<not> isRGB cell fg \<Longrightarrow> \<not> isPalette cell fg \<Longrightarrow> getColor cell fg theme tp = Some (defaultColor theme fg)"
  by (simp add: getColor_def isDefault_def isRGB_def isPalette_def defaultColor_def orElse_def split: if_splits)

lemma getColor_rgb:
  "isRGB cell fg \<Longrightarrow> getColor cell fg theme tp =
     Some (rgb_string (colorOf cell fg div 65536 mod 256) (colorOf cell fg div 256 mod 256) (colorOf cell fg mod 256))"
  using js_channel [of 16 "colorOf cell fg"] js_channel [of 8 "colorOf cell fg"] js_low [of "colorOf cell fg"]
  by (simp add: getColor_def isDefault_def isRGB_def colorOf_def Let_def split: if_splits)

lemma getColor_palette_low:
  "isPalette cell fg \<Longrightarrow> colorOf cell fg < 16 \<Longrightarrow> getColor cell fg theme tp = js_index tp (colorOf cell fg)"
  by (simp add: getColor_def isDefault_def isRGB_def isPalette_def colorOf_def split: if_splits)

lemma getColor_palette_high:
  "isPalette cell fg \<Longrightarrow> 16 \<le> colorOf cell fg \<Longrightarrow> getColor cell fg theme tp = Some (case js_index PALETTE_256 (colorOf cell fg) of None \<Rightarrow> ''#ffffff'' | Some c \<Rightarrow> c)"
  by (simp add: getColor_def isDefault_def isRGB_def isPalette_def colorOf_def orElse_def split: if_splits)

lemma empty_theme_simps:
  "foreground empty_theme = None" "background empty_theme = None" "cursor empty_theme = None"
  "red empty_theme = None"
  by (simp_all add: empty_theme_def)

lemmas cell_defs = cell0_def fgPalette_def fgRGB_def bgPalette_def bgRGB_def
  isDefault_def isRGB_def isPalette_def colorOf_def


text \<open>C1. \<^verbatim>\<open>_getColor\<close>, called as \<^verbatim>\<open>_render\<close> calls it, returns: for a Default descriptor
  the theme's foreground or background, or white \<^verbatim>\<open>#ffffff\<close> and black \<^verbatim>\<open>#000000\<close> when the
  theme omits them; for Palette(i) with \<open>i < 16\<close> entry \<open>i\<close> of the theme band, which for
  \<open>0 \<le> i\<close> is the theme's named colour when present and the built-in default otherwise
  (index 1: the theme's red, else \<^verbatim>\<open>#cd0000\<close>); for Palette(i) with \<open>16 \<le> i \<le> 255\<close> entry \<open>i\<close>
  of the built-in table, whatever the theme and the band; for RGB(v) the colour whose
  channels are the bytes \<open>(v >> 16) & 0xff\<close>, \<open>(v >> 8) & 0xff\<close>, \<open>v & 0xff\<close>, that is the
  string \<^verbatim>\<open>rgb(R, G, B)\<close> with each channel as its decimal numeral (\<^verbatim>\<open>rgb(18, 52, 86)\<close> for
  \<^verbatim>\<open>0x123456\<close>); and for a descriptor of no recognised variant the value of the Default
  case.\<close>

theorem getColor_resolution:
  "(isDefault cell fg \<longrightarrow>
      getColor cell fg theme (buildThemePalette theme) = Some (defaultColor theme fg)) \<and>
   defaultColor theme True = (case foreground theme of None \<Rightarrow> ''#ffffff'' | Some c \<Rightarrow> c) \<and>
   defaultColor theme False = (case background theme of None \<Rightarrow> ''#000000'' | Some c \<Rightarrow> c) \<and>
   (isPalette cell fg \<and> colorOf cell fg < 16 \<longrightarrow>
      getColor cell fg theme (buildThemePalette theme) =
      js_index (buildThemePalette theme) (colorOf cell fg)) \<and>
   (isPalette cell fg \<and> 0 \<le> colorOf cell fg \<and> colorOf cell fg < 16 \<longrightarrow>
      getColor cell fg theme (buildThemePalette theme) =
      Some (case (theme_slots ! nat (colorOf cell fg)) theme of
              None \<Rightarrow> DEFAULT_ANSI_COLORS ! nat (colorOf cell fg)
            | Some c \<Rightarrow> c)) \<and>
   (isPalette cell fg \<and> colorOf cell fg = 1 \<longrightarrow>
      getColor cell fg theme (buildThemePalette theme) =
      Some (case red theme of None \<Rightarrow> ''#cd0000'' | Some c \<Rightarrow> c)) \<and>
   (isPalette cell fg \<and> 16 \<le> colorOf cell fg \<and> colorOf cell fg \<le> 255 \<longrightarrow>
      (\<forall>theme' tp. getColor cell fg theme' tp = Some (PALETTE_256 ! nat (colorOf cell fg)))) \<and>
   (isRGB cell fg \<longrightarrow>
      getColor cell fg theme (buildThemePalette theme) =
      Some (rgb_string (colorOf cell fg div 65536 mod 256) (colorOf cell fg div 256 mod 256)
              (colorOf cell fg mod 256)) \<and>
      js_and (js_shr (colorOf cell fg) 16) 0xff = colorOf cell fg div 65536 mod 256 \<and>
      js_and (js_shr (colorOf cell fg) 8) 0xff = colorOf cell fg div 256 mod 256 \<and>
      js_and (colorOf cell fg) 0xff = colorOf cell fg mod 256) \<and>
   (isRGB cell fg \<longrightarrow>
      (\<exists>dr dg db.
         getColor cell fg theme (buildThemePalette theme) =
           Some (''rgb('' @ dr @ '', '' @ dg @ '', '' @ db @ '')'') \<and>
         decimal dr (colorOf cell fg div 65536 mod 256) \<and>
         decimal dg (colorOf cell fg div 256 mod 256) \<and>
         decimal db (colorOf cell fg mod 256))) \<and>
   (isRGB cell fg \<and> colorOf cell fg = 0x123456 \<longrightarrow>
      getColor cell fg theme (buildThemePalette theme) = Some ''rgb(18, 52, 86)'') \<and>
   (isRGB cell fg \<and> colorOf cell fg = 0x090700 \<longrightarrow>
      getColor cell fg theme (buildThemePalette theme) = Some ''rgb(9, 7, 0)'') \<and>
   (isRGB cell fg \<and> colorOf cell fg = 0xff2b5e \<longrightarrow>
      getColor cell fg theme (buildThemePalette theme) = Some ''rgb(255, 43, 94)'') \<and>
   (\<not> isDefault cell fg \<and> \<not> isRGB cell fg \<and> \<not> isPalette cell fg \<longrightarrow>
      getColor cell fg theme (buildThemePalette theme) = Some (defaultColor theme fg))"
proof -
  have dec: "isRGB cell fg \<longrightarrow>
      (\<exists>dr dg db.
         getColor cell fg theme (buildThemePalette theme) =
           Some (''rgb('' @ dr @ '', '' @ dg @ '', '' @ db @ '')'') \<and>
         decimal dr (colorOf cell fg div 65536 mod 256) \<and>
         decimal dg (colorOf cell fg div 256 mod 256) \<and>
         decimal db (colorOf cell fg mod 256))"
    using rgb_string_decimal [of "colorOf cell fg div 65536 mod 256"
        "colorOf cell fg div 256 mod 256" "colorOf cell fg mod 256"]
    by (simp add: getColor_rgb)
  have lit1: "isRGB cell fg \<and> colorOf cell fg = 0x123456 \<longrightarrow>
      getColor cell fg theme (buildThemePalette theme) = Some ''rgb(18, 52, 86)''"
    by (simp add: getColor_rgb rgb_literals)
  have lit2: "isRGB cell fg \<and> colorOf cell fg = 0x090700 \<longrightarrow>
      getColor cell fg theme (buildThemePalette theme) = Some ''rgb(9, 7, 0)''"
    by (simp add: getColor_rgb rgb_literals)
  have lit3: "isRGB cell fg \<and> colorOf cell fg = 0xff2b5e \<longrightarrow>
      getColor cell fg theme (buildThemePalette theme) = Some ''rgb(255, 43, 94)''"
    by (simp add: getColor_rgb rgb_literals)
  have red: "isPalette cell fg \<and> colorOf cell fg = 1 \<longrightarrow>
      getColor cell fg theme (buildThemePalette theme) =
      Some (case red theme of None \<Rightarrow> ''#cd0000'' | Some c \<Rightarrow> c)"
    using themeBand_entry [of 1 theme]
    by (simp add: getColor_palette_low theme_slots_def DEFAULT_ANSI_COLORS_def
        cong: option.case_cong)
  have high: "isPalette cell fg \<and> 16 \<le> colorOf cell fg \<and> colorOf cell fg \<le> 255 \<longrightarrow>
      (\<forall>theme' tp. getColor cell fg theme' tp = Some (PALETTE_256 ! nat (colorOf cell fg)))"
    by (simp add: getColor_palette_high js_index_PALETTE_256_in)
  have rgb: "isRGB cell fg \<longrightarrow>
      getColor cell fg theme (buildThemePalette theme) =
      Some (rgb_string (colorOf cell fg div 65536 mod 256) (colorOf cell fg div 256 mod 256)
              (colorOf cell fg mod 256)) \<and>
      js_and (js_shr (colorOf cell fg) 16) 0xff = colorOf cell fg div 65536 mod 256 \<and>
      js_and (js_shr (colorOf cell fg) 8) 0xff = colorOf cell fg div 256 mod 256 \<and>
      js_and (colorOf cell fg) 0xff = colorOf cell fg mod 256"
    using js_channel [of 16 "colorOf cell fg"] js_channel [of 8 "colorOf cell fg"]
    by (simp add: getColor_rgb js_low)
  show ?thesis
    by (intro conjI red high rgb dec lit1 lit2 lit3)
       (simp_all add: getColor_default getColor_none getColor_palette_low themeBand_entry
          defaultColor_def)
qed

theorem getColor_resolution_witness:
  "isDefault cell0 True \<and>
   getColor cell0 True empty_theme (buildThemePalette empty_theme) = Some ''#ffffff'' \<and>
   isPalette (fgPalette 1 cell0) True \<and> colorOf (fgPalette 1 cell0) True = 1 \<and>
   getColor (fgPalette 1 cell0) True empty_theme (buildThemePalette empty_theme) = Some ''#cd0000'' \<and>
   getColor (fgPalette 1 cell0) True (empty_theme\<lparr>red := Some ''#aa0000''\<rparr>)
     (buildThemePalette (empty_theme\<lparr>red := Some ''#aa0000''\<rparr>)) = Some ''#aa0000'' \<and>
   isPalette (bgPalette 200 cell0) False \<and> colorOf (bgPalette 200 cell0) False = 200 \<and>
   getColor (bgPalette 200 cell0) False (empty_theme\<lparr>red := Some ''#aa0000''\<rparr>) [] =
     Some (PALETTE_256 ! 200) \<and>
   isRGB (fgRGB 0x123456 cell0) True \<and> colorOf (fgRGB 0x123456 cell0) True = 0x123456 \<and>
   getColor (fgRGB 0x123456 cell0) True empty_theme (buildThemePalette empty_theme) =
     Some ''rgb(18, 52, 86)'' \<and>
   \<not> isDefault (cell0\<lparr>isBgDefault := False\<rparr>) False \<and>
   \<not> isRGB (cell0\<lparr>isBgDefault := False\<rparr>) False \<and>
   \<not> isPalette (cell0\<lparr>isBgDefault := False\<rparr>) False \<and>
   getColor (cell0\<lparr>isBgDefault := False\<rparr>) False empty_theme (buildThemePalette empty_theme) =
     Some ''#000000''"
proof -
  let ?th = "empty_theme\<lparr>red := Some ''#aa0000''\<rparr>"
  let ?c6 = "cell0\<lparr>isBgDefault := False\<rparr>"
  have h1: "isDefault cell0 True" by (simp add: cell_defs)
  have h2: "isPalette (fgPalette 1 cell0) True \<and> colorOf (fgPalette 1 cell0) True = 1"
    by (simp add: cell_defs)
  have h3: "isPalette (bgPalette 200 cell0) False \<and> colorOf (bgPalette 200 cell0) False = 200"
    by (simp add: cell_defs)
  have h4: "isRGB (fgRGB 0x123456 cell0) True" and v4: "colorOf (fgRGB 0x123456 cell0) True = 0x123456"
    by (simp_all add: cell_defs)
  have h5: "\<not> isDefault ?c6 False \<and> \<not> isRGB ?c6 False \<and> \<not> isPalette ?c6 False"
    by (simp add: cell_defs)
  have "isDefault cell0 True \<longrightarrow>
      getColor cell0 True empty_theme (buildThemePalette empty_theme) =
      Some (defaultColor empty_theme True)"
    using getColor_resolution [of cell0 True empty_theme] by (elim conjE)
  with h1 have r1: "getColor cell0 True empty_theme (buildThemePalette empty_theme) = Some ''#ffffff''"
    by (simp add: defaultColor_def empty_theme_simps)
  have "isPalette (fgPalette 1 cell0) True \<and> colorOf (fgPalette 1 cell0) True = 1 \<longrightarrow>
      getColor (fgPalette 1 cell0) True empty_theme (buildThemePalette empty_theme) =
      Some (case red empty_theme of None \<Rightarrow> ''#cd0000'' | Some c \<Rightarrow> c)"
    using getColor_resolution [of "fgPalette 1 cell0" True empty_theme] by (elim conjE)
  with h2 have r2: "getColor (fgPalette 1 cell0) True empty_theme (buildThemePalette empty_theme) =
      Some ''#cd0000''"
    by (simp add: empty_theme_simps)
  have "isPalette (fgPalette 1 cell0) True \<and> colorOf (fgPalette 1 cell0) True = 1 \<longrightarrow>
      getColor (fgPalette 1 cell0) True ?th (buildThemePalette ?th) =
      Some (case red ?th of None \<Rightarrow> ''#cd0000'' | Some c \<Rightarrow> c)"
    using getColor_resolution [of "fgPalette 1 cell0" True ?th] by (elim conjE)
  with h2 have r3: "getColor (fgPalette 1 cell0) True ?th (buildThemePalette ?th) = Some ''#aa0000''"
    by simp
  have "isPalette (bgPalette 200 cell0) False \<and> 16 \<le> colorOf (bgPalette 200 cell0) False \<and>
      colorOf (bgPalette 200 cell0) False \<le> 255 \<longrightarrow>
      (\<forall>theme' tp. getColor (bgPalette 200 cell0) False theme' tp =
         Some (PALETTE_256 ! nat (colorOf (bgPalette 200 cell0) False)))"
    using getColor_resolution [of "bgPalette 200 cell0" False empty_theme] by (elim conjE)
  with h3 have r4: "getColor (bgPalette 200 cell0) False ?th [] = Some (PALETTE_256 ! 200)"
    by simp
  have "isRGB (fgRGB 0x123456 cell0) True \<and> colorOf (fgRGB 0x123456 cell0) True = 0x123456 \<longrightarrow>
      getColor (fgRGB 0x123456 cell0) True empty_theme (buildThemePalette empty_theme) =
      Some ''rgb(18, 52, 86)''"
    using getColor_resolution [of "fgRGB 0x123456 cell0" True empty_theme] by (elim conjE)
  with h4 v4 have r5: "getColor (fgRGB 0x123456 cell0) True empty_theme
      (buildThemePalette empty_theme) = Some ''rgb(18, 52, 86)''"
    by blast
  have "\<not> isDefault ?c6 False \<and> \<not> isRGB ?c6 False \<and> \<not> isPalette ?c6 False \<longrightarrow>
      getColor ?c6 False empty_theme (buildThemePalette empty_theme) =
      Some (defaultColor empty_theme False)"
    using getColor_resolution [of ?c6 False empty_theme] by (elim conjE)
  with h5 have r6: "getColor ?c6 False empty_theme (buildThemePalette empty_theme) = Some ''#000000''"
    by (simp add: defaultColor_def empty_theme_simps)
  from h1 h2 h3 h4 v4 h5 r1 r2 r3 r4 r5 r6 show ?thesis by simp
qed


text \<open>C10. For a Palette descriptor whose index is beyond the table (above 255), colour
  resolution still returns a colour, and it is \<^verbatim>\<open>#ffffff\<close> on the foreground as on the
  background channel.\<close>

theorem getColor_palette_out_of_table:
  "isPalette cell fg \<and> 255 < colorOf cell fg \<longrightarrow>
     getColor cell fg theme themePalette = Some ''#ffffff''"
  by (simp add: getColor_palette_high js_index_PALETTE_256_out)

theorem getColor_palette_out_of_table_witness:
  "isPalette (fgPalette 256 cell0) True \<and> 255 < colorOf (fgPalette 256 cell0) True \<and>
   getColor (fgPalette 256 cell0) True empty_theme (buildThemePalette empty_theme) =
     Some ''#ffffff'' \<and>
   isPalette (bgPalette 1000 cell0) False \<and> 255 < colorOf (bgPalette 1000 cell0) False \<and>
   getColor (bgPalette 1000 cell0) False empty_theme (buildThemePalette empty_theme) =
     Some ''#ffffff''"
proof -
  have h1: "isPalette (fgPalette 256 cell0) True \<and> 255 < colorOf (fgPalette 256 cell0) True"
    by (simp add: cell_defs)
  have h2: "isPalette (bgPalette 1000 cell0) False \<and> 255 < colorOf (bgPalette 1000 cell0) False"
    by (simp add: cell_defs)
  from h1 h2
    getColor_palette_out_of_table [of "fgPalette 256 cell0" True]
    getColor_palette_out_of_table [of "bgPalette 1000 cell0" False]
  show ?thesis by simp
qed

section \<open>Dimensions and the raster\<close>

text \<open>\<^verbatim>\<open>_updateDimensions\<close> in closed form: the cell metrics are those of \<open>computeLayout\<close>,
  and a canvas is created when there is none or its size is not the computed one.\<close>

lemma updateDimensions_detached: "addon_terminal s = None \<Longrightarrow> updateDimensions s = s"
  by (simp add: updateDimensions_def)

lemma updateDimensions_attached:
  assumes "addon_terminal s = Some t"
  shows "updateDimensions s =
     (let cw = fst (computeLayout t (scaleFactor (addon_options s)));
          ch = snd (computeLayout t (scaleFactor (addon_options s)));
          s3 = s\<lparr>cellWidth := cw, cellHeight := ch, charWidth := cw, charHeight := ch\<rparr>
      in if (case addon_canvas s of
               None \<Rightarrow> True
             | Some c \<Rightarrow> width c \<noteq> cols t * cw \<or> height c \<noteq> rows t * ch)
         then s3\<lparr>addon_canvas := Some \<lparr>width = cols t * cw, height = rows t * ch,
                                        ident = allocations s\<rparr>,
                 addon_ctx := Some getContext,
                 allocations := Suc (allocations s)\<rparr>
         else s3)"
  using assms
  by (auto simp add: updateDimensions_def computeLayout_def orElse_def Let_def
      split: option.split prod.split)

lemma updateDimensions_terminal [simp]:
  "addon_terminal (updateDimensions s) = addon_terminal s"
  by (cases "addon_terminal s")
     (simp_all add: updateDimensions_detached updateDimensions_attached Let_def)

lemma updateDimensions_options [simp]:
  "addon_options (updateDimensions s) = addon_options s"
  by (cases "addon_terminal s")
     (simp_all add: updateDimensions_detached updateDimensions_attached Let_def)

lemma updateDimensions_cell:
  "addon_terminal s = Some t \<Longrightarrow>
   cellWidth (updateDimensions s) = fst (computeLayout t (scaleFactor (addon_options s))) \<and>
   cellHeight (updateDimensions s) = snd (computeLayout t (scaleFactor (addon_options s)))"
  by (simp add: updateDimensions_attached Let_def)

lemma updateDimensions_canvas:
  "addon_terminal s = Some t \<Longrightarrow>
   \<exists>c. addon_canvas (updateDimensions s) = Some c \<and>
     width c = cols t * fst (computeLayout t (scaleFactor (addon_options s))) \<and>
     height c = rows t * snd (computeLayout t (scaleFactor (addon_options s)))"
  by (auto simp add: updateDimensions_attached Let_def split: option.split)

lemma computeLayout_cong:
  "opt_fontSize (options t') = opt_fontSize (options t) \<Longrightarrow>
   opt_lineHeight (options t') = opt_lineHeight (options t) \<Longrightarrow>
   css_cell t' = css_cell t \<Longrightarrow> computeLayout t' sc = computeLayout t sc"
  by (simp add: computeLayout_def)

lemma updateDimensions_decision:
  assumes "addon_terminal s = Some t"
    and "(cw, ch) = computeLayout t (scaleFactor (addon_options s))"
  shows "cellWidth (updateDimensions s) = cw \<and> cellHeight (updateDimensions s) = ch \<and>
     (if (case addon_canvas s of
            None \<Rightarrow> True
          | Some c \<Rightarrow> width c \<noteq> cols t * cw \<or> height c \<noteq> rows t * ch)
      then addon_canvas (updateDimensions s) =
             Some \<lparr>width = cols t * cw, height = rows t * ch, ident = allocations s\<rparr> \<and>
           addon_ctx (updateDimensions s) = Some getContext \<and>
           allocations (updateDimensions s) = Suc (allocations s)
      else addon_canvas (updateDimensions s) = addon_canvas s \<and>
           addon_ctx (updateDimensions s) = addon_ctx s \<and>
           allocations (updateDimensions s) = allocations s)"
proof -
  from assms(2) have l: "fst (computeLayout t (scaleFactor (addon_options s))) = cw"
    "snd (computeLayout t (scaleFactor (addon_options s))) = ch"
    by (metis fst_conv, metis snd_conv)
  show ?thesis
    by (simp add: updateDimensions_attached [OF assms(1)] l Let_def)
qed


subsection \<open>What \<^verbatim>\<open>_render\<close> leaves of the state\<close>

lemma render_detached: "addon_terminal s = None \<Longrightarrow> render s = s"
  by (simp add: render_def)

lemma render_fields [simp]:
  "addon_terminal (render s) = addon_terminal s"
  "addon_canvas (render s) = addon_canvas (updateDimensions s)"
  "addon_options (render s) = addon_options s"
  "allocations (render s) = allocations (updateDimensions s)"
  "cellWidth (render s) = cellWidth (updateDimensions s)"
  "cellHeight (render s) = cellHeight (updateDimensions s)"
  by (simp_all add: render_def updateDimensions_detached Let_def split: option.split)

lemma render_canvas_attached:
  "addon_terminal s = Some t \<Longrightarrow> \<exists>c. addon_canvas (render s) = Some c"
  using updateDimensions_canvas [of s t] by auto

lemma activate_terminal [simp]: "addon_terminal (activate t s) = Some t"
  by (simp add: activate_def)

lemma new_addon_terminal [simp]: "addon_terminal (new_addon p) = None"
  by (simp add: new_addon_def)

lemma dispose_terminal [simp]: "addon_terminal (dispose s) = None"
  by (simp add: dispose_def)

lemma setOptions_fields [simp]:
  "addon_canvas (setOptions p s) = None"
  "addon_ctx (setOptions p s) = None"
  "addon_terminal (setOptions p s) = addon_terminal s"
  "allocations (setOptions p s) = allocations s"
  "scaleFactor (addon_options (setOptions p s)) =
     (case opt_scaleFactor p of None \<Rightarrow> scaleFactor (addon_options s)
      | Some v \<Rightarrow> validateScaleFactor v)"
  "showCursor (addon_options (setOptions p s)) =
     (case opt_showCursor p of None \<Rightarrow> showCursor (addon_options s) | Some b \<Rightarrow> b)"
  by (simp_all add: setOptions_def Let_def split: option.split)

lemma render_twice_same_raster:
  assumes "addon_terminal s = Some t" "cols t' = cols t" "rows t' = rows t"
    "opt_fontSize (options t') = opt_fontSize (options t)"
    "opt_lineHeight (options t') = opt_lineHeight (options t)"
    "css_cell t' = css_cell t"
  shows "addon_canvas (render ((render s)\<lparr>addon_terminal := Some t'\<rparr>)) = addon_canvas (render s) \<and>
         allocations (render ((render s)\<lparr>addon_terminal := Some t'\<rparr>)) = allocations (render s)"
proof -
  let ?sc = "scaleFactor (addon_options s)"
  let ?s1 = "(render s)\<lparr>addon_terminal := Some t'\<rparr>"
  obtain cw ch where l: "(cw, ch) = computeLayout t ?sc" by (metis surj_pair)
  from updateDimensions_canvas [OF assms(1)] l
  obtain c where c: "addon_canvas (render s) = Some c" "width c = cols t * cw"
    "height c = rows t * ch"
    by (metis fst_conv snd_conv render_fields(2))
  have t1: "addon_terminal ?s1 = Some t'" by simp
  have l1: "(cw, ch) = computeLayout t' (scaleFactor (addon_options ?s1))"
    using l computeLayout_cong [OF assms(4,5,6)] by simp
  have keep: "\<not> (case addon_canvas ?s1 of
            None \<Rightarrow> True
          | Some c \<Rightarrow> width c \<noteq> cols t' * cw \<or> height c \<noteq> rows t' * ch)"
    using c assms(2,3) by simp
  from updateDimensions_decision [OF t1 l1] keep
  have "addon_canvas (updateDimensions ?s1) = addon_canvas ?s1 \<and>
        allocations (updateDimensions ?s1) = allocations ?s1"
    by simp
  then show ?thesis by simp
qed

lemma render_after_setOptions:
  assumes "addon_terminal s = Some t"
    and "(cw, ch) = computeLayout t (scaleFactor (addon_options (setOptions p s)))"
  shows "addon_canvas (render (setOptions p s)) =
           Some \<lparr>width = cols t * cw, height = rows t * ch, ident = allocations s\<rparr> \<and>
         allocations (render (setOptions p s)) = Suc (allocations s)"
proof -
  have t1: "addon_terminal (setOptions p s) = Some t" using assms(1) by simp
  from updateDimensions_decision [OF t1 assms(2)] show ?thesis by simp
qed


subsection \<open>The sample terminals\<close>

text \<open>Products of doubles at given numbers. A positive \<open>x\<close> with
  \<open>2 ^ 52 \<le> x * 2 ^ k < 2 ^ 53\<close> rounds to the nearest multiple of \<open>1 / 2 ^ k\<close>.\<close>

lemma binade_up:
  "0 < x \<Longrightarrow> 2 ^ 52 \<le> x * 2 ^ k \<Longrightarrow> x * 2 ^ k < 2 ^ 53 \<Longrightarrow> k \<le> n \<Longrightarrow>
   binade n x e = e - int k"
proof (induction k arbitrary: n x e)
  case 0
  then show ?case by (cases n) simp_all
next
  case (Suc k)
  then obtain n' where n: "n = Suc n'" by (cases n) auto
  have "x * 2 ^ Suc k < 2 ^ 53" using Suc.prems by simp
  moreover have "x * 2 \<le> x * 2 ^ Suc k" using Suc.prems(1) by (simp add: self_le_power)
  ultimately have lt: "x < 2 ^ 52" by simp
  have "binade n' (2 * x) (e - 1) = (e - 1) - int k"
    using Suc.prems n by (intro Suc.IH) (simp_all add: mult.assoc mult.left_commute)
  with lt n show ?case by simp
qed

lemma to_double_eval:
  assumes "0 < x" "2 ^ 52 \<le> x * 2 ^ k" "x * 2 ^ k < 2 ^ 53" "k \<le> 1000"
  shows "to_double x = real_of_int (round_even (x * 2 ^ k)) / 2 ^ k"
proof -
  have b: "binade 2200 x 0 = - int k"
    using binade_up [of x k 2200 0] assms by simp
  have m: "max (- int k) (- 1074) = - int k" using assms(4) by simp
  have p: "pow2 (- int k) = 1 / 2 ^ k" by (simp add: pow2_def)
  show ?thesis using assms(1) by (simp add: to_double_def b m p Let_def)
qed

lemma fmul_eval:
  assumes "0 < a" "2 ^ 52 \<le> a * 2 ^ ka" "a * 2 ^ ka < 2 ^ 53" "ka \<le> 1000"
    and "0 < b" "2 ^ 52 \<le> b * 2 ^ kb" "b * 2 ^ kb < 2 ^ 53" "kb \<le> 1000"
    and "2 ^ 52 \<le> real_of_int (round_even (a * 2 ^ ka)) / 2 ^ ka *
           (real_of_int (round_even (b * 2 ^ kb)) / 2 ^ kb) * 2 ^ kp"
    and "real_of_int (round_even (a * 2 ^ ka)) / 2 ^ ka *
           (real_of_int (round_even (b * 2 ^ kb)) / 2 ^ kb) * 2 ^ kp < 2 ^ 53"
    and "kp \<le> 1000"
  shows "fmul a b =
     real_of_int (round_even (real_of_int (round_even (a * 2 ^ ka)) / 2 ^ ka *
       (real_of_int (round_even (b * 2 ^ kb)) / 2 ^ kb) * 2 ^ kp)) / 2 ^ kp"
proof -
  let ?A = "real_of_int (round_even (a * 2 ^ ka)) / 2 ^ ka"
  let ?B = "real_of_int (round_even (b * 2 ^ kb)) / 2 ^ kb"
  have a: "to_double a = ?A" by (rule to_double_eval [OF assms(1,2,3,4)])
  have b: "to_double b = ?B" by (rule to_double_eval [OF assms(5,6,7,8)])
  have "(0::real) < 2 ^ 52" by simp
  also have "\<dots> \<le> ?A * ?B * 2 ^ kp" by (rule assms(9))
  finally have pos: "0 < ?A * ?B * 2 ^ kp" .
  have "0 < ?A * ?B" by (rule zero_less_mult_pos2 [OF pos]) simp
  then have "to_double (?A * ?B) = real_of_int (round_even (?A * ?B * 2 ^ kp)) / 2 ^ kp"
    using assms(9,10,11) by (intro to_double_eval)
  then show ?thesis by (simp only: fmul_def a b)
qed

lemma fmul_13w: "fmul (13) (3 / 5) = 8782019273372467 / 1125899906842624"
  using fmul_eval [of "13" 49 "3 / 5" 53 50]
  by (simp add: round_even_def Let_def)

lemma fmul_13w_x1: "fmul (8782019273372467 / 1125899906842624) (1) = 8782019273372467 / 1125899906842624"
  using fmul_eval [of "8782019273372467 / 1125899906842624" 50 "1" 52 50]
  by (simp add: round_even_def Let_def)

lemma fmul_13w_x2: "fmul (8782019273372467 / 1125899906842624) (2) = 8782019273372467 / 562949953421312"
  using fmul_eval [of "8782019273372467 / 1125899906842624" 50 "2" 51 49]
  by (simp add: round_even_def Let_def)

lemma fmul_13h: "fmul (13) (1) = 13"
  using fmul_eval [of "13" 49 "1" 52 49]
  by (simp add: round_even_def Let_def)

lemma fmul_13h_x2: "fmul (13) (2) = 26"
  using fmul_eval [of "13" 49 "2" 51 48]
  by (simp add: round_even_def Let_def)

lemma fmul_25w: "fmul (25) (3 / 5) = 15"
  using fmul_eval [of "25" 48 "3 / 5" 53 49]
  by (simp add: round_even_def Let_def)

lemma fmul_25w_x1: "fmul (15) (1) = 15"
  using fmul_eval [of "15" 49 "1" 52 49]
  by (simp add: round_even_def Let_def)

lemma fmul_25w_x2: "fmul (15) (2) = 30"
  using fmul_eval [of "15" 49 "2" 51 48]
  by (simp add: round_even_def Let_def)

lemma fmul_25h: "fmul (25) (11 / 10) = 7740561859543041 / 281474976710656"
  using fmul_eval [of "25" 48 "11 / 10" 52 48]
  by (simp add: round_even_def Let_def)

lemma fmul_25h_x1: "fmul (7740561859543041 / 281474976710656) (1) = 7740561859543041 / 281474976710656"
  using fmul_eval [of "7740561859543041 / 281474976710656" 48 "1" 52 48]
  by (simp add: round_even_def Let_def)

lemma fmul_25h_x2: "fmul (7740561859543041 / 281474976710656) (2) = 7740561859543041 / 140737488355328"
  using fmul_eval [of "7740561859543041 / 281474976710656" 48 "2" 51 47]
  by (simp add: round_even_def Let_def)

lemma fmul_10_11: "fmul (10) (11 / 10) = 11"
  using fmul_eval [of "10" 49 "11 / 10" 52 49]
  by (simp add: round_even_def Let_def)

lemmas fmul_products =
  fmul_13w
  fmul_13w_x1
  fmul_13w_x2
  fmul_13h
  fmul_13h_x2
  fmul_25w
  fmul_25w_x1
  fmul_25w_x2
  fmul_25h
  fmul_25h_x1
  fmul_25h_x2
  fmul_10_11

lemma fmul_samples:
  "fmul 10 1.1 = 11" "Math_ceil (fmul (fmul 25 1.1) 2) = 56" "Math_ceil (25 * 1.1 * 2) = 55"
  by (simp_all add: Math_ceil_def fmul_products)

lemma term0_simps:
  "cols term0 = 2" "rows term0 = 1" "css_cell term0 = None"
  "opt_fontSize (options term0) = None" "opt_lineHeight (options term0) = None"
  "opt_theme (options term0) = None" "opt_fontFamily (options term0) = None"
  by (simp_all add: term0_def)

lemma computeLayout_term0:
  "computeLayout term0 1 = (8, 13)" "computeLayout term0 2 = (16, 26)"
  by (simp_all add: computeLayout_def term0_simps Math_ceil_def fmul_products)

lemma computeLayout_term1:
  "computeLayout term1 1 = (15, 28)" "computeLayout term1 2 = (30, 56)"
  by (simp_all add: computeLayout_def term1_def Math_ceil_def fmul_products)

lemma computeLayout_term_scrolled: "computeLayout term_scrolled 1 = (8, 13)"
  using computeLayout_term0(1) by (simp add: computeLayout_def term0_def term_scrolled_def)

lemma validateScaleFactor_Finite:
  "validateScaleFactor (Finite x) = (if x \<le> 0 then 1 else x)"
  "validateScaleFactor NaN = 1" "validateScaleFactor PosInfinity = 1"
  "validateScaleFactor NegInfinity = 1"
  by (simp_all add: validateScaleFactor_def Number_isFinite_def number_le_def)

lemma activate_new_addon:
  assumes "(cw, ch) = computeLayout t 1"
  shows "addon_terminal (activate t (new_addon None)) = Some t"
    and "addon_canvas (activate t (new_addon None)) =
           Some \<lparr>width = cols t * cw, height = rows t * ch, ident = 0\<rparr>"
    and "addon_ctx (activate t (new_addon None)) = Some getContext"
    and "scaleFactor (addon_options (activate t (new_addon None))) = 1"
    and "showCursor (addon_options (activate t (new_addon None))) = True"
    and "allocations (activate t (new_addon None)) = 1"
    and "cellWidth (activate t (new_addon None)) = cw"
    and "cellHeight (activate t (new_addon None)) = ch"
proof -
  let ?n = "(new_addon None)\<lparr>addon_terminal := Some t\<rparr>"
  have t: "addon_terminal ?n = Some t" by simp
  have sc: "scaleFactor (addon_options (new_addon None)) = 1"
    "showCursor (addon_options (new_addon None)) = True"
    "addon_canvas (new_addon None) = None" "allocations (new_addon None) = 0"
    by (simp_all add: new_addon_def validateScaleFactor_Finite orElse_def)
  have l: "(cw, ch) = computeLayout t (scaleFactor (addon_options ?n))"
    using assms by (simp add: sc)
  from updateDimensions_decision [OF t l]
  show "addon_terminal (activate t (new_addon None)) = Some t"
    and "addon_canvas (activate t (new_addon None)) =
           Some \<lparr>width = cols t * cw, height = rows t * ch, ident = 0\<rparr>"
    and "addon_ctx (activate t (new_addon None)) = Some getContext"
    and "scaleFactor (addon_options (activate t (new_addon None))) = 1"
    and "showCursor (addon_options (activate t (new_addon None))) = True"
    and "allocations (activate t (new_addon None)) = 1"
    and "cellWidth (activate t (new_addon None)) = cw"
    and "cellHeight (activate t (new_addon None)) = ch"
    by (simp_all add: activate_def sc)
qed

lemma addon0_fields:
  "addon_terminal addon0 = Some term0"
  "addon_canvas addon0 = Some \<lparr>width = 16, height = 13, ident = 0\<rparr>"
  "addon_ctx addon0 = Some getContext"
  "scaleFactor (addon_options addon0) = 1"
  "showCursor (addon_options addon0) = True"
  "allocations addon0 = 1"
  "cellWidth addon0 = 8" "cellHeight addon0 = 13"
  using activate_new_addon [of 8 13 term0]
  by (simp_all add: addon0_def computeLayout_term0 term0_simps)

lemma addon1_fields:
  "addon_terminal addon1 = Some term1"
  "addon_canvas addon1 = Some \<lparr>width = 15, height = 28, ident = 0\<rparr>"
  "scaleFactor (addon_options addon1) = 1"
  "allocations addon1 = 1"
  using activate_new_addon [of 15 28 term1]
  by (simp_all add: addon1_def computeLayout_term1) (simp_all add: term1_def)

lemma addon_scrolled_fields:
  "addon_terminal addon_scrolled = Some term_scrolled"
  "addon_canvas addon_scrolled = Some \<lparr>width = 16, height = 13, ident = 0\<rparr>"
  "addon_ctx addon_scrolled = Some getContext"
  "scaleFactor (addon_options addon_scrolled) = 1"
  "showCursor (addon_options addon_scrolled) = True"
  "cellWidth addon_scrolled = 8" "cellHeight addon_scrolled = 13"
  using activate_new_addon [of 8 13 term_scrolled]
  by (simp_all add: addon_scrolled_def computeLayout_term_scrolled)
     (simp_all add: term_scrolled_def)





section \<open>Capture\<close>

lemma capture_detached:
  "addon_terminal s = None \<Longrightarrow> capture p s = (Inl AddonNotActivated, s)"
  by (simp add: capture_def)

lemma getCanvas_detached:
  "addon_terminal s = None \<Longrightarrow> getCanvas s = (Inl AddonNotActivated, s)"
  by (simp add: getCanvas_def)

lemma capture_attached:
  assumes "addon_terminal s = Some t"
  shows "\<exists>c. addon_canvas (render s) = Some c \<and>
     capture p s =
       (let fmt = (case p of None \<Rightarrow> ''imageBitmap''
                   | Some o' \<Rightarrow> (case format o' of None \<Rightarrow> ''imageBitmap'' | Some f \<Rightarrow> f));
            ty = (case p of None \<Rightarrow> ''image/png''
                  | Some o' \<Rightarrow> (case type o' of None \<Rightarrow> ''image/png'' | Some f \<Rightarrow> f));
            q = Math_max (Finite 0) (Math_min (Finite 1) (case p of None \<Rightarrow> Finite 0.92
                  | Some o' \<Rightarrow> (case quality o' of None \<Rightarrow> Finite 0.92 | Some v \<Rightarrow> v)))
        in (if fmt = ''imageBitmap'' then Inr (ImageBitmap c (addon_ctx (render s)))
            else if fmt = ''dataURL'' then Inr (DataURL c (addon_ctx (render s)) ty q)
            else if fmt = ''blob'' then Inr (Blob c (addon_ctx (render s)) ty q)
            else Inl (UnknownFormat fmt), render s))"
proof -
  obtain c where c: "addon_canvas (render s) = Some c"
    using render_canvas_attached [OF assms] by blast
  show ?thesis
    using assms c
    by (simp add: capture_def Let_def orElse_def split: option.split)
qed

lemma getCanvas_attached:
  assumes "addon_terminal s = Some t"
  shows "\<exists>c. getCanvas s = (Inr c, render s)"
proof -
  obtain c where c: "addon_canvas (render s) = Some c"
    using render_canvas_attached [OF assms] by blast
  show ?thesis using assms c by (simp add: getCanvas_def Let_def)
qed


text \<open>C7. With the grid attached, \<^verbatim>\<open>capture\<close> given a format outside \<^verbatim>\<open>imageBitmap\<close>,
  \<^verbatim>\<open>dataURL\<close>, \<^verbatim>\<open>blob\<close> fails with the error \<^verbatim>\<open>Unknown format\<close> naming that format, and
  attached or not it fails: no default format stands in. For a format of the three, and for
  an omitted format (which is \<^verbatim>\<open>imageBitmap\<close>), it never raises that error, and with the grid
  attached it succeeds.\<close>

theorem capture_unsupported_format:
  "(format p = Some f \<and> f \<notin> supported_formats \<and> addon_terminal s \<noteq> None \<longrightarrow>
      fst (capture (Some p) s) = Inl (UnknownFormat f) \<and>
      message (UnknownFormat f) = ''Unknown format: '' @ f) \<and>
   (format p = Some f \<and> f \<notin> supported_formats \<longrightarrow> (\<exists>e. fst (capture (Some p) s) = Inl e)) \<and>
   (format p = Some f \<and> f \<in> supported_formats \<longrightarrow>
      (\<forall>g. fst (capture (Some p) s) \<noteq> Inl (UnknownFormat g))) \<and>
   (format p = Some f \<and> f \<in> supported_formats \<and> addon_terminal s \<noteq> None \<longrightarrow>
      (\<exists>r. fst (capture (Some p) s) = Inr r)) \<and>
   (\<forall>g. fst (capture None s) \<noteq> Inl (UnknownFormat g)) \<and>
   (format p = None \<longrightarrow> capture (Some p) s = capture (Some (p\<lparr>format := Some ''imageBitmap''\<rparr>)) s)"
proof (cases "addon_terminal s")
  case None
  then show ?thesis
    by (simp add: capture_detached)
next
  case (Some t)
  from capture_attached [OF Some, of "Some p"] capture_attached [OF Some, of None]
    capture_attached [OF Some, of "Some (p\<lparr>format := Some ''imageBitmap''\<rparr>)"]
  show ?thesis
    using Some
    by (auto simp add: Let_def supported_formats_def message_def)
qed

theorem capture_unsupported_format_witness:
  "format \<lparr>format = Some ''gif'', type = None, quality = None\<rparr> = Some ''gif'' \<and>
   ''gif'' \<notin> supported_formats \<and> addon_terminal addon0 \<noteq> None \<and>
   fst (capture (Some \<lparr>format = Some ''gif'', type = None, quality = None\<rparr>) addon0) =
     Inl (UnknownFormat ''gif'') \<and>
   format \<lparr>format = Some ''blob'', type = None, quality = None\<rparr> = Some ''blob'' \<and>
   ''blob'' \<in> supported_formats \<and>
   fst (capture (Some \<lparr>format = Some ''blob'', type = None, quality = None\<rparr>) addon0) \<noteq>
     Inl (UnknownFormat ''blob'')"
proof -
  let ?gif = "\<lparr>format = Some ''gif'', type = None, quality = None\<rparr>"
  let ?blob = "\<lparr>format = Some ''blob'', type = None, quality = None\<rparr>"
  have a: "addon_terminal addon0 \<noteq> None" by (simp add: addon0_def)
  have g: "''gif'' \<notin> supported_formats" and b: "''blob'' \<in> supported_formats"
    by (simp_all add: supported_formats_def)
  have "format ?gif = Some ''gif'' \<and> ''gif'' \<notin> supported_formats \<and> addon_terminal addon0 \<noteq> None \<longrightarrow>
      fst (capture (Some ?gif) addon0) = Inl (UnknownFormat ''gif'') \<and>
      message (UnknownFormat ''gif'') = ''Unknown format: '' @ ''gif''"
    using capture_unsupported_format [where p = ?gif and f = "''gif''" and s = addon0] by (elim conjE)
  with a g have r1: "fst (capture (Some ?gif) addon0) = Inl (UnknownFormat ''gif'')" by simp
  have "format ?blob = Some ''blob'' \<and> ''blob'' \<in> supported_formats \<longrightarrow>
      (\<forall>g. fst (capture (Some ?blob) addon0) \<noteq> Inl (UnknownFormat g))"
    using capture_unsupported_format [where p = ?blob and f = "''blob''" and s = addon0] by (elim conjE)
  with b have r2: "fst (capture (Some ?blob) addon0) \<noteq> Inl (UnknownFormat ''blob'')" by simp
  from a g b r1 r2 show ?thesis by simp
qed


text \<open>C8. \<^verbatim>\<open>capture\<close> and \<^verbatim>\<open>getCanvas\<close> fail with \<^verbatim>\<open>Addon not activated\<close> when no terminal
  is attached, which is so before activation and after disposal; the state is left as it
  was. With a terminal attached neither raises that error, and \<^verbatim>\<open>getCanvas\<close> returns the
  canvas.\<close>

theorem not_attached_fails:
  "capture p (new_addon q) = (Inl AddonNotActivated, new_addon q) \<and>
   getCanvas (new_addon q) = (Inl AddonNotActivated, new_addon q) \<and>
   capture p (dispose s) = (Inl AddonNotActivated, dispose s) \<and>
   getCanvas (dispose s) = (Inl AddonNotActivated, dispose s) \<and>
   (addon_terminal s = None \<longrightarrow>
      capture p s = (Inl AddonNotActivated, s) \<and> getCanvas s = (Inl AddonNotActivated, s)) \<and>
   message AddonNotActivated = ''Addon not activated'' \<and>
   (addon_terminal s \<noteq> None \<longrightarrow>
      fst (capture p s) \<noteq> Inl AddonNotActivated \<and> fst (getCanvas s) \<noteq> Inl AddonNotActivated \<and>
      (\<exists>c. fst (getCanvas s) = Inr c)) \<and>
   fst (capture p (activate t s)) \<noteq> Inl AddonNotActivated \<and>
   fst (getCanvas (activate t s)) \<noteq> Inl AddonNotActivated"
proof -
  have att: "fst (capture p' s') \<noteq> Inl AddonNotActivated \<and>
             fst (getCanvas s') \<noteq> Inl AddonNotActivated \<and> (\<exists>c. fst (getCanvas s') = Inr c)"
    if "addon_terminal s' \<noteq> None" for p' s'
  proof -
    from that obtain t' where t': "addon_terminal s' = Some t'" by auto
    from capture_attached [OF t', of p'] getCanvas_attached [OF t']
    show ?thesis by (auto simp add: Let_def split: if_splits)
  qed
  have act: "addon_terminal (activate t s) \<noteq> None" by simp
  show ?thesis
    using att [of s p] att [OF act, of p]
    by (simp add: capture_detached getCanvas_detached message_def)
qed

theorem not_attached_fails_witness:
  "addon_terminal (new_addon None) = None \<and>
   capture None (new_addon None) = (Inl AddonNotActivated, new_addon None) \<and>
   getCanvas (dispose addon0) = (Inl AddonNotActivated, dispose addon0) \<and>
   addon_terminal addon0 \<noteq> None \<and>
   fst (capture None addon0) \<noteq> Inl AddonNotActivated \<and>
   fst (getCanvas addon0) \<noteq> Inl AddonNotActivated"
proof -
  have a: "addon_terminal addon0 \<noteq> None" by (simp add: addon0_def)
  have "addon_terminal addon0 \<noteq> None \<longrightarrow>
      fst (capture None addon0) \<noteq> Inl AddonNotActivated \<and>
      fst (getCanvas addon0) \<noteq> Inl AddonNotActivated \<and> (\<exists>c. fst (getCanvas addon0) = Inr c)"
    using not_attached_fails [where p = None and q = None and s = addon0 and t = term0] by (elim conjE)
  with a have r: "fst (capture None addon0) \<noteq> Inl AddonNotActivated \<and>
                  fst (getCanvas addon0) \<noteq> Inl AddonNotActivated" by simp
  have c: "capture None (new_addon None) = (Inl AddonNotActivated, new_addon None)"
    using not_attached_fails [where p = None and q = None and s = addon0 and t = term0] by (elim conjE)
  have d: "getCanvas (dispose addon0) = (Inl AddonNotActivated, dispose addon0)"
    using not_attached_fails [where p = None and q = None and s = addon0 and t = term0] by (elim conjE)
  from a r c d show ?thesis by simp
qed

lemma clamp01_eq: "Math_max (Finite 0) (Math_min (Finite 1) q) = clamp01 q"
  by (cases q) (simp_all add: Math_max_def Math_min_def number_le_def clamp01_def)

lemma clamp01_idem: "clamp01 (clamp01 q) = clamp01 q"
  by (cases q) (simp_all add: clamp01_def)

lemma clamp01_in_unit_interval: "q \<noteq> NaN \<Longrightarrow> in_unit_interval (clamp01 q)"
  by (cases q) (simp_all add: clamp01_def in_unit_interval_def)

lemma capture_quality_cong:
  assumes "format p = format p'" "type p = type p'"
    "clamp01 (orElse (quality p) (Finite 0.92)) = clamp01 (orElse (quality p') (Finite 0.92))"
  shows "capture (Some p) s = capture (Some p') s"
  using assms
  by (simp add: capture_def Let_def clamp01_eq split: option.split)

text \<open>What the code does with a quality: \<^verbatim>\<open>capture\<close> with quality \<open>q\<close> is \<^verbatim>\<open>capture\<close> with the
  clamp of \<open>q\<close>, which lies in \<open>[0, 1]\<close> unless \<open>q\<close> is \<^verbatim>\<open>NaN\<close>; an omitted quality is 0.92; and
  the encoder is handed the clamp of \<open>q\<close>.\<close>

lemma capture_quality:
  "capture (Some (p\<lparr>quality := Some q\<rparr>)) s = capture (Some (p\<lparr>quality := Some (clamp01 q)\<rparr>)) s"
  "capture (Some (p\<lparr>quality := None\<rparr>)) s = capture (Some (p\<lparr>quality := Some (Finite 0.92)\<rparr>)) s"
  "clamp01 (Finite 5) = Finite 1" "clamp01 (Finite (- 5)) = Finite 0" "clamp01 NaN = NaN"
  by (auto intro!: capture_quality_cong simp add: clamp01_idem orElse_def)
     (simp_all add: clamp01_def)

lemma capture_blob_quality:
  assumes "addon_terminal s = Some t" "format p = Some ''blob''"
  shows "\<exists>c. addon_canvas (render s) = Some c \<and>
     fst (capture (Some (p\<lparr>quality := Some q\<rparr>)) s) =
       Inr (Blob c (addon_ctx (render s)) (orElse (type p) ''image/png'') (clamp01 q))"
  using capture_attached [OF assms(1), of "Some (p\<lparr>quality := Some q\<rparr>)"] assms(2)
  by (auto simp add: Let_def clamp01_eq orElse_def split: option.split)

text \<open>C9. The claim fails on the code at the quality \<^verbatim>\<open>NaN\<close>: \<^verbatim>\<open>Math.max(0, Math.min(1, NaN))\<close>
  is \<^verbatim>\<open>NaN\<close>, so on an activated addon \<^verbatim>\<open>capture\<close> with format \<^verbatim>\<open>blob\<close> hands the encoder the
  quality \<^verbatim>\<open>NaN\<close>, which is not in \<open>[0, 1]\<close>, where the qualities 5 and \<open>-5\<close> are handed over as
  1 and 0.\<close>

theorem capture_quality_NaN:
  "addon_terminal addon0 = Some term0 \<and>
   fst (capture (Some \<lparr>format = Some ''blob'', type = None, quality = Some NaN\<rparr>) addon0) =
     Inr (Blob \<lparr>width = 16, height = 13, ident = 0\<rparr> (addon_ctx (render addon0))
            ''image/png'' NaN) \<and>
   \<not> in_unit_interval NaN \<and>
   fst (capture (Some \<lparr>format = Some ''blob'', type = None, quality = Some (Finite 5)\<rparr>) addon0) =
     Inr (Blob \<lparr>width = 16, height = 13, ident = 0\<rparr> (addon_ctx (render addon0))
            ''image/png'' (Finite 1)) \<and>
   fst (capture (Some \<lparr>format = Some ''blob'', type = None, quality = Some (Finite (- 5))\<rparr>) addon0) =
     Inr (Blob \<lparr>width = 16, height = 13, ident = 0\<rparr> (addon_ctx (render addon0))
            ''image/png'' (Finite 0))"
proof -
  let ?p = "\<lparr>format = Some ''blob'', type = None, quality = None\<rparr>"
  have t: "addon_terminal addon0 = Some term0" by (simp add: addon0_fields)
  have l: "(8, 13) = computeLayout term0 (scaleFactor (addon_options addon0))"
    by (simp add: addon0_fields computeLayout_term0)
  have c: "addon_canvas (render addon0) = Some \<lparr>width = 16, height = 13, ident = 0\<rparr>"
    using updateDimensions_decision [OF t l] by (simp add: addon0_fields term0_simps)
  have b: "fst (capture (Some (?p\<lparr>quality := Some q\<rparr>)) addon0) =
      Inr (Blob \<lparr>width = 16, height = 13, ident = 0\<rparr> (addon_ctx (render addon0))
             ''image/png'' (clamp01 q))" for q
    using capture_blob_quality [OF t, of ?p q] c by (simp add: orElse_def)
  from t b [of NaN] b [of "Finite 5"] b [of "Finite (- 5)"]
  show ?thesis by (simp add: clamp01_def in_unit_interval_def)
qed

section \<open>Drawing\<close>

subsection \<open>The context after each call\<close>

lemma set_fillStyle_fields [simp]:
  "fillStyle (set_fillStyle v c) = (case v of None \<Rightarrow> fillStyle c | Some x \<Rightarrow> x)"
  "font (set_fillStyle v c) = font c"
  "globalAlpha (set_fillStyle v c) = globalAlpha c"
  "textBaseline (set_fillStyle v c) = textBaseline c"
  "drawn (set_fillStyle v c) = drawn c"
  by (simp_all add: set_fillStyle_def split: option.split)

lemma set_font_fields [simp]:
  "fillStyle (set_font f c) = fillStyle c"
  "font (set_font f c) = f"
  "globalAlpha (set_font f c) = globalAlpha c"
  "textBaseline (set_font f c) = textBaseline c"
  "drawn (set_font f c) = drawn c"
  by (simp_all add: set_font_def)

lemma set_globalAlpha_fields [simp]:
  "fillStyle (set_globalAlpha a c) = fillStyle c"
  "font (set_globalAlpha a c) = font c"
  "globalAlpha (set_globalAlpha a c) = a"
  "textBaseline (set_globalAlpha a c) = textBaseline c"
  "drawn (set_globalAlpha a c) = drawn c"
  by (simp_all add: set_globalAlpha_def)

lemma set_textBaseline_fields [simp]:
  "fillStyle (set_textBaseline b c) = fillStyle c"
  "font (set_textBaseline b c) = font c"
  "globalAlpha (set_textBaseline b c) = globalAlpha c"
  "textBaseline (set_textBaseline b c) = b"
  "drawn (set_textBaseline b c) = drawn c"
  by (simp_all add: set_textBaseline_def)

lemma fillRect_fields [simp]:
  "fillStyle (fillRect x y w h c) = fillStyle c"
  "font (fillRect x y w h c) = font c"
  "globalAlpha (fillRect x y w h c) = globalAlpha c"
  "textBaseline (fillRect x y w h c) = textBaseline c"
  "drawn (fillRect x y w h c) = drawn c @ [Rect (fillStyle c) (globalAlpha c) x y w h]"
  by (simp_all add: fillRect_def)

lemma fillText_fields [simp]:
  "fillStyle (fillText t x y c) = fillStyle c"
  "font (fillText t x y c) = font c"
  "globalAlpha (fillText t x y c) = globalAlpha c"
  "textBaseline (fillText t x y c) = textBaseline c"
  "drawn (fillText t x y c) =
     drawn c @ [Text (font c) (fillStyle c) (globalAlpha c) (textBaseline c) t x y]"
  by (simp_all add: fillText_def)

lemma guarded_fields:
  "fillStyle (guarded b f c) = (if b then fillStyle (f c) else fillStyle c)"
  "font (guarded b f c) = (if b then font (f c) else font c)"
  "globalAlpha (guarded b f c) = (if b then globalAlpha (f c) else globalAlpha c)"
  "textBaseline (guarded b f c) = (if b then textBaseline (f c) else textBaseline c)"
  "drawn (guarded b f c) = (if b then drawn (f c) else drawn c)"
  by (simp_all add: guarded_def)


subsection \<open>One cell\<close>

lemma render_cell_zero_width:
  "getWidth cell = 0 \<Longrightarrow> render_cell s theme tp fs ff x y cell ctx = ctx"
  by (simp add: render_cell_def)

lemma render_cell_drawn:
  assumes "getWidth cell \<noteq> 0"
  shows "drawn (render_cell s theme tp fs ff x y cell ctx) =
         drawn ctx @
         cell_draws s theme fs ff x y cell
           (if isInverse cell then getColor cell False theme tp else getColor cell True theme tp)
           (if isInverse cell then getColor cell True theme tp else getColor cell False theme tp)
           ctx"
  using assms
  by (simp add: render_cell_def cell_draws_def guarded_fields Let_def defaultColor_def orElse_def
      split: option.split)

lemma cell_draws_spans:
  "p \<in> set (cell_draws s theme fs ff x y cell fgc bgc ctx) \<Longrightarrow>
   spans (real_of_int x) (real_of_int (cellWidth s * getWidth cell)) p"
  by (auto simp add: cell_draws_def spans_def Let_def split: if_splits)

lemma cell_draws_background:
  "a \<noteq> defaultColor theme False \<Longrightarrow>
   Rect a (globalAlpha ctx) (real_of_int x) (real_of_int y)
     (real_of_int (cellWidth s * getWidth c)) (real_of_int (cellHeight s))
   \<in> set (cell_draws s theme fs ff x y c fgc (Some a) ctx)"
  by (simp add: cell_draws_def Let_def)

lemma cell_draws_glyph:
  "getChars c \<noteq> [] \<Longrightarrow>
   glyph s fs ff x y c b ctx \<in> set (cell_draws s theme fs ff x y c (Some b) bgc ctx)"
  by (simp add: cell_draws_def glyph_def Let_def)

lemma render_cell_recolor:
  assumes "isInverse c"
    and "getColor (recolor False fc fd fr fp bc bd br bp c) True theme tp = getColor c False theme tp"
    and "getColor (recolor False fc fd fr fp bc bd br bp c) False theme tp = getColor c True theme tp"
  shows "render_cell s theme tp fs ff x y (recolor False fc fd fr fp bc bd br bp c) ctx =
         render_cell s theme tp fs ff x y c ctx"
proof -
  let ?c' = "recolor False fc fd fr fp bc bd br bp c"
  have same: "getWidth ?c' = getWidth c" "getChars ?c' = getChars c" "isBold ?c' = isBold c"
    "isItalic ?c' = isItalic c" "isDim ?c' = isDim c" "isUnderline ?c' = isUnderline c"
    "isStrikethrough ?c' = isStrikethrough c" "isOverline ?c' = isOverline c"
    "isInverse ?c' = False"
    by (simp_all add: recolor_def)
  show ?thesis
    unfolding render_cell_def same assms(2,3) using assms(1) by (simp add: Let_def)
qed

lemma getColor_rgb_sample:
  "isRGB cell fg \<Longrightarrow> colorOf cell fg = 0xff0000 \<Longrightarrow>
   getColor cell fg theme tp = Some (rgb_string 255 0 0)"
  "isRGB cell fg \<Longrightarrow> colorOf cell fg = 0x0000ff \<Longrightarrow>
   getColor cell fg theme tp = Some (rgb_string 0 0 255)"
  by (simp_all add: getColor_rgb)

lemma rgb_samples:
  "rgb_string 255 0 0 = ''rgb(255, 0, 0)''" "rgb_string 0 0 255 = ''rgb(0, 0, 255)''"
  by (simp_all add: rgb_string_def Number_toString_def nat_toString.simps digit_char_def)

text \<open>C3. A cell with the inverse flag whose foreground resolves to \<open>A\<close> and background to
  \<open>B\<close> is rendered exactly as the cell that differs from it in having no inverse flag and
  colour descriptors that resolve to \<open>B\<close> on the foreground and \<open>A\<close> on the background. What
  it paints is what a cell with glyph colour \<open>B\<close> and background colour \<open>A\<close> paints: the
  background rectangle in \<open>A\<close> (painted when \<open>A\<close> is not the theme's default background, as
  for every cell) and the glyph in \<open>B\<close>.\<close>

theorem inverse_swaps_resolved_colors:
  "(isInverse c \<and>
    getColor c True theme tp = A \<and> getColor c False theme tp = B \<and>
    getColor (recolor False fc fd fr fp bc bd br bp c) True theme tp = B \<and>
    getColor (recolor False fc fd fr fp bc bd br bp c) False theme tp = A \<longrightarrow>
      render_cell s theme tp fs ff x y c ctx =
      render_cell s theme tp fs ff x y (recolor False fc fd fr fp bc bd br bp c) ctx) \<and>
   (isInverse c \<and> getWidth c \<noteq> 0 \<and>
    getColor c True theme tp = A \<and> getColor c False theme tp = B \<longrightarrow>
      drawn (render_cell s theme tp fs ff x y c ctx) =
      drawn ctx @ cell_draws s theme fs ff x y c B A ctx) \<and>
   (isInverse c \<and> getWidth c \<noteq> 0 \<and>
    getColor c True theme tp = Some a \<and> a \<noteq> defaultColor theme False \<longrightarrow>
      Rect a (globalAlpha ctx) (real_of_int x) (real_of_int y)
        (real_of_int (cellWidth s * getWidth c)) (real_of_int (cellHeight s))
      \<in> set (drawn (render_cell s theme tp fs ff x y c ctx))) \<and>
   (isInverse c \<and> getWidth c \<noteq> 0 \<and> getChars c \<noteq> [] \<and>
    getColor c False theme tp = Some b \<longrightarrow>
      glyph s fs ff x y c b ctx \<in> set (drawn (render_cell s theme tp fs ff x y c ctx)))"
proof (intro conjI impI)
  assume h: "isInverse c \<and>
    getColor c True theme tp = A \<and> getColor c False theme tp = B \<and>
    getColor (recolor False fc fd fr fp bc bd br bp c) True theme tp = B \<and>
    getColor (recolor False fc fd fr fp bc bd br bp c) False theme tp = A"
  then show "render_cell s theme tp fs ff x y c ctx =
      render_cell s theme tp fs ff x y (recolor False fc fd fr fp bc bd br bp c) ctx"
    using render_cell_recolor [where c = c and fc = fc and fd = fd and fr = fr and fp = fp
        and bc = bc and bd = bd and br = br and bp = bp and theme = theme and tp = tp
        and s = s and fs = fs and ff = ff and x = x and y = y and ctx = ctx]
    by simp
next
  assume "isInverse c \<and> getWidth c \<noteq> 0 \<and>
    getColor c True theme tp = A \<and> getColor c False theme tp = B"
  then show "drawn (render_cell s theme tp fs ff x y c ctx) =
      drawn ctx @ cell_draws s theme fs ff x y c B A ctx"
    by (auto simp add: render_cell_drawn)
next
  assume "isInverse c \<and> getWidth c \<noteq> 0 \<and>
    getColor c True theme tp = Some a \<and> a \<noteq> defaultColor theme False"
  then show "Rect a (globalAlpha ctx) (real_of_int x) (real_of_int y)
        (real_of_int (cellWidth s * getWidth c)) (real_of_int (cellHeight s))
      \<in> set (drawn (render_cell s theme tp fs ff x y c ctx))"
    using cell_draws_background [where a = a and theme = theme and s = s and fs = fs and ff = ff
        and x = x and y = y and c = c and fgc = "getColor c False theme tp" and ctx = ctx]
    by (simp add: render_cell_drawn)
next
  assume "isInverse c \<and> getWidth c \<noteq> 0 \<and> getChars c \<noteq> [] \<and>
    getColor c False theme tp = Some b"
  then show "glyph s fs ff x y c b ctx \<in> set (drawn (render_cell s theme tp fs ff x y c ctx))"
    using cell_draws_glyph [where b = b and theme = theme and s = s and fs = fs and ff = ff
        and x = x and y = y and c = c and bgc = "getColor c True theme tp" and ctx = ctx]
    by (simp add: render_cell_drawn)
qed

theorem inverse_swaps_resolved_colors_witness:
  "isInverse inverse_cell \<and> getWidth inverse_cell \<noteq> 0 \<and> getChars inverse_cell \<noteq> [] \<and>
   getColor inverse_cell True empty_theme (buildThemePalette empty_theme) =
     Some ''rgb(255, 0, 0)'' \<and>
   getColor inverse_cell False empty_theme (buildThemePalette empty_theme) =
     Some ''rgb(0, 0, 255)'' \<and>
   getColor (recolor False 0x0000ff False True False 0xff0000 False True False inverse_cell)
     True empty_theme (buildThemePalette empty_theme) = Some ''rgb(0, 0, 255)'' \<and>
   getColor (recolor False 0x0000ff False True False 0xff0000 False True False inverse_cell)
     False empty_theme (buildThemePalette empty_theme) = Some ''rgb(255, 0, 0)'' \<and>
   ''rgb(255, 0, 0)'' \<noteq> defaultColor empty_theme False \<and>
   render_cell addon0 empty_theme (buildThemePalette empty_theme) 13 ''monospace'' 0 0
     inverse_cell getContext =
   render_cell addon0 empty_theme (buildThemePalette empty_theme) 13 ''monospace'' 0 0
     (recolor False 0x0000ff False True False 0xff0000 False True False inverse_cell)
     getContext \<and>
   drawn (render_cell addon0 empty_theme (buildThemePalette empty_theme) 13 ''monospace'' 0 0
     inverse_cell getContext) =
     [Rect ''rgb(255, 0, 0)'' 1 0 0 8 13,
      Text ''13px monospace'' ''rgb(0, 0, 255)'' 1 ''alphabetic'' ''A'' 0 0]"
proof -
  let ?c' = "recolor False 0x0000ff False True False 0xff0000 False True False inverse_cell"
  let ?tp = "buildThemePalette empty_theme"
  let ?A = "Some ''rgb(255, 0, 0)''"
  let ?B = "Some ''rgb(0, 0, 255)''"
  have i: "isInverse inverse_cell" "getWidth inverse_cell \<noteq> 0" "getChars inverse_cell \<noteq> []"
    by (simp_all add: inverse_cell_def cell_defs)
  have A: "getColor inverse_cell True empty_theme ?tp = ?A"
    unfolding rgb_samples [symmetric]
    by (rule getColor_rgb_sample) (simp_all add: inverse_cell_def cell_defs)
  have B: "getColor inverse_cell False empty_theme ?tp = ?B"
    unfolding rgb_samples [symmetric]
    by (rule getColor_rgb_sample) (simp_all add: inverse_cell_def cell_defs)
  have A': "getColor ?c' False empty_theme ?tp = ?A"
    unfolding rgb_samples [symmetric]
    by (rule getColor_rgb_sample) (simp_all add: inverse_cell_def recolor_def cell_defs)
  have B': "getColor ?c' True empty_theme ?tp = ?B"
    unfolding rgb_samples [symmetric]
    by (rule getColor_rgb_sample) (simp_all add: inverse_cell_def recolor_def cell_defs)
  have d: "''rgb(255, 0, 0)'' \<noteq> defaultColor empty_theme False"
    by (simp add: defaultColor_def empty_theme_simps)
  note inst = inverse_swaps_resolved_colors [where c = inverse_cell and theme = empty_theme
      and tp = ?tp and A = ?A and B = ?B
      and fc = "0x0000ff" and fd = False and fr = True and fp = False
      and bc = "0xff0000" and bd = False and br = True and bp = False
      and s = addon0 and fs = 13 and ff = "''monospace''" and x = 0 and y = 0
      and ctx = getContext]
  from inst [THEN conjunct1] i A B A' B'
  have e: "render_cell addon0 empty_theme ?tp 13 ''monospace'' 0 0 inverse_cell getContext =
           render_cell addon0 empty_theme ?tp 13 ''monospace'' 0 0 ?c' getContext"
    by blast
  from inst [THEN conjunct2, THEN conjunct1] i A B
  have "drawn (render_cell addon0 empty_theme ?tp 13 ''monospace'' 0 0 inverse_cell getContext) =
        drawn getContext @
        cell_draws addon0 empty_theme 13 ''monospace'' 0 0 inverse_cell ?B ?A getContext"
    by blast
  then have p: "drawn (render_cell addon0 empty_theme ?tp 13 ''monospace'' 0 0 inverse_cell
        getContext) =
      [Rect ''rgb(255, 0, 0)'' 1 0 0 8 13,
       Text ''13px monospace'' ''rgb(0, 0, 255)'' 1 ''alphabetic'' ''A'' 0 0]"
    by (simp add: cell_draws_def getContext_def defaultColor_def empty_theme_simps
        addon0_fields inverse_cell_def cell_defs Number_toString_def nat_toString.simps
        digit_char_def Let_def)
  from i A B A' B' d e p show ?thesis by blast
qed

subsection \<open>One row\<close>

lemma render_cols_pair:
  assumes "getCell line c = Some wide" "getCell line (Suc c) = Some cont" "getWidth cont = 0"
  shows "render_cols s theme tp fs ff line y [c, Suc c] ctx =
         render_cell s theme tp fs ff (int c * cellWidth s) y wide ctx"
  using assms by (simp add: render_cell_zero_width)

lemma render_cols_skips_zero_width:
  "render_cols s theme tp fs ff line y ks ctx =
   render_cols s theme tp fs ff line y
     (filter (\<lambda>k. case getCell line k of None \<Rightarrow> False | Some c \<Rightarrow> getWidth c \<noteq> 0) ks) ctx"
  by (induction ks arbitrary: ctx) (simp_all add: render_cell_zero_width split: option.split)


text \<open>C4. A cell of width 0 leaves the context as it was: nothing is filled or drawn for
  it, so a row is rendered as the row of its cells of non-zero width. A cell of width 2 at
  column \<open>c\<close> with a cell of width 0 at column \<open>c + 1\<close> paints what the wide cell alone
  paints, once, and there every rectangle (background, underline, strikethrough, overline)
  starts at the wide cell's column and is \<open>cellWidth * 2\<close> wide.\<close>

theorem wide_cell_drawn_once:
  "(getWidth cell = 0 \<longrightarrow> render_cell s theme tp fs ff x y cell ctx = ctx) \<and>
   render_cols s theme tp fs ff line y ks ctx =
     render_cols s theme tp fs ff line y
       (filter (\<lambda>k. case getCell line k of None \<Rightarrow> False | Some c \<Rightarrow> getWidth c \<noteq> 0) ks) ctx \<and>
   (getCell line c = Some wide \<and> getWidth wide = 2 \<and>
    getCell line (Suc c) = Some cont \<and> getWidth cont = 0 \<longrightarrow>
      render_cols s theme tp fs ff line y [c, Suc c] ctx =
        render_cell s theme tp fs ff (int c * cellWidth s) y wide ctx \<and>
      (\<exists>fgColor bgColor.
         drawn (render_cols s theme tp fs ff line y [c, Suc c] ctx) =
           drawn ctx @
           cell_draws s theme fs ff (int c * cellWidth s) y wide fgColor bgColor ctx \<and>
         (\<forall>p \<in> set (cell_draws s theme fs ff (int c * cellWidth s) y wide fgColor bgColor ctx).
            spans (real_of_int (int c * cellWidth s)) (real_of_int (cellWidth s * 2)) p)))"
proof (intro conjI impI)
  assume "getWidth cell = 0"
  then show "render_cell s theme tp fs ff x y cell ctx = ctx"
    by (rule render_cell_zero_width)
next
  show "render_cols s theme tp fs ff line y ks ctx =
     render_cols s theme tp fs ff line y
       (filter (\<lambda>k. case getCell line k of None \<Rightarrow> False | Some c \<Rightarrow> getWidth c \<noteq> 0) ks) ctx"
    by (rule render_cols_skips_zero_width)
next
  assume h: "getCell line c = Some wide \<and> getWidth wide = 2 \<and>
    getCell line (Suc c) = Some cont \<and> getWidth cont = 0"
  then have h1: "getCell line c = Some wide" and h2: "getWidth wide = 2"
    and h3: "getCell line (Suc c) = Some cont" and h4: "getWidth cont = 0"
    by simp_all
  show eq: "render_cols s theme tp fs ff line y [c, Suc c] ctx =
        render_cell s theme tp fs ff (int c * cellWidth s) y wide ctx"
    by (rule render_cols_pair [OF h1 h3 h4])
  from h2 have w: "getWidth wide \<noteq> 0" by simp
  let ?fg = "if isInverse wide then getColor wide False theme tp else getColor wide True theme tp"
  let ?bg = "if isInverse wide then getColor wide True theme tp else getColor wide False theme tp"
  have d: "drawn (render_cols s theme tp fs ff line y [c, Suc c] ctx) =
           drawn ctx @ cell_draws s theme fs ff (int c * cellWidth s) y wide ?fg ?bg ctx"
    unfolding eq by (rule render_cell_drawn [OF w])
  have sp: "\<forall>p \<in> set (cell_draws s theme fs ff (int c * cellWidth s) y wide ?fg ?bg ctx).
            spans (real_of_int (int c * cellWidth s)) (real_of_int (cellWidth s * 2)) p"
    using cell_draws_spans [where s = s and theme = theme and fs = fs and ff = ff
        and x = "int c * cellWidth s" and y = y and cell = wide and fgc = ?fg and bgc = ?bg
        and ctx = ctx]
    unfolding h2 by blast
  from d sp show "\<exists>fgColor bgColor.
         drawn (render_cols s theme tp fs ff line y [c, Suc c] ctx) =
           drawn ctx @
           cell_draws s theme fs ff (int c * cellWidth s) y wide fgColor bgColor ctx \<and>
         (\<forall>p \<in> set (cell_draws s theme fs ff (int c * cellWidth s) y wide fgColor bgColor ctx).
            spans (real_of_int (int c * cellWidth s)) (real_of_int (cellWidth s * 2)) p)"
    by blast
qed

theorem wide_cell_drawn_once_witness:
  "getCell [wide_cell, continuation_cell] 0 = Some wide_cell \<and> getWidth wide_cell = 2 \<and>
   getCell [wide_cell, continuation_cell] (Suc 0) = Some continuation_cell \<and>
   getWidth continuation_cell = 0 \<and>
   render_cols addon0 empty_theme (buildThemePalette empty_theme) 13 ''monospace''
     [wide_cell, continuation_cell] 0 [0, Suc 0] getContext =
   render_cell addon0 empty_theme (buildThemePalette empty_theme) 13 ''monospace''
     (int 0 * cellWidth addon0) 0 wide_cell getContext \<and>
   render_cell addon0 empty_theme (buildThemePalette empty_theme) 13 ''monospace'' 8 0
     continuation_cell getContext = getContext \<and>
   drawn (render_cols addon0 empty_theme (buildThemePalette empty_theme) 13 ''monospace''
     [wide_cell, continuation_cell] 0 [0, Suc 0] getContext) =
     [Text ''13px monospace'' ''#ffffff'' 1 ''alphabetic'' ''W'' 0 0,
      Rect ''#ffffff'' 1 0 12 16 1]"
proof -
  let ?line = "[wide_cell, continuation_cell]"
  let ?tp = "buildThemePalette empty_theme"
  have h: "getCell ?line 0 = Some wide_cell \<and> getWidth wide_cell = 2 \<and>
     getCell ?line (Suc 0) = Some continuation_cell \<and> getWidth continuation_cell = 0"
    by (simp add: getCell_def js_index_def wide_cell_def continuation_cell_def cell0_def)
  note inst = wide_cell_drawn_once [where cell = continuation_cell and s = addon0
      and theme = empty_theme and tp = ?tp and fs = 13
      and ff = "''monospace''" and x = 8 and y = 0 and ctx = getContext and line = ?line
      and ks = "[]" and c = 0 and wide = wide_cell and cont = continuation_cell]
  from inst [THEN conjunct1] h
  have a: "render_cell addon0 empty_theme ?tp 13 ''monospace'' 8 0 continuation_cell getContext =
           getContext"
    by blast
  from inst [THEN conjunct2, THEN conjunct2] h
  have b: "render_cols addon0 empty_theme ?tp 13 ''monospace'' ?line 0 [0, Suc 0] getContext =
           render_cell addon0 empty_theme ?tp 13 ''monospace'' (int 0 * cellWidth addon0) 0
             wide_cell getContext"
    by blast
  have w: "getWidth wide_cell \<noteq> 0" "isFgDefault wide_cell" "isBgDefault wide_cell"
    "\<not> isInverse wide_cell" "getChars wide_cell = ''W''" "isUnderline wide_cell"
    "\<not> isStrikethrough wide_cell" "\<not> isOverline wide_cell" "\<not> isDim wide_cell"
    "\<not> isBold wide_cell" "\<not> isItalic wide_cell" "getWidth wide_cell = 2"
    by (simp_all add: wide_cell_def cell0_def)
  have fg: "getColor wide_cell True empty_theme ?tp = Some ''#ffffff''"
    and bg: "getColor wide_cell False empty_theme ?tp = Some ''#000000''"
    by (simp_all add: getColor_default isDefault_def w defaultColor_def empty_theme_simps)
  have "drawn (render_cell addon0 empty_theme ?tp 13 ''monospace'' (int 0 * cellWidth addon0) 0
          wide_cell getContext) =
        [Text ''13px monospace'' ''#ffffff'' 1 ''alphabetic'' ''W'' 0 0,
         Rect ''#ffffff'' 1 0 12 16 1]"
    by (simp add: render_cell_drawn [OF w(1)] w fg bg cell_draws_def getContext_def
        defaultColor_def empty_theme_simps addon0_fields Number_toString_def
        nat_toString.simps digit_char_def Let_def)
  with b have p: "drawn (render_cols addon0 empty_theme ?tp 13 ''monospace'' ?line 0
          [0, Suc 0] getContext) =
        [Text ''13px monospace'' ''#ffffff'' 1 ''alphabetic'' ''W'' 0 0,
         Rect ''#ffffff'' 1 0 12 16 1]"
    by simp
  from h a b p show ?thesis by blast
qed

subsection \<open>The frame and the cursor\<close>

text \<open>The cell loops read the state for the cell metrics only, and the terminal for its
  grid, options, viewport offset and lines.\<close>

lemma hide_cursor_fields [simp]:
  "addon_terminal (hide_cursor s) = addon_terminal s"
  "addon_canvas (hide_cursor s) = addon_canvas s"
  "addon_ctx (hide_cursor s) = addon_ctx s"
  "cellWidth (hide_cursor s) = cellWidth s"
  "cellHeight (hide_cursor s) = cellHeight s"
  "scaleFactor (addon_options (hide_cursor s)) = scaleFactor (addon_options s)"
  "showCursor (addon_options (hide_cursor s)) = False"
  by (simp_all add: hide_cursor_def)

lemma updateDimensions_hide_cursor:
  "updateDimensions (hide_cursor s) = hide_cursor (updateDimensions s)"
proof (cases "addon_terminal s")
  case None
  then show ?thesis by (simp add: updateDimensions_detached)
next
  case (Some t)
  then have h: "addon_terminal (hide_cursor s) = Some t" by simp
  show ?thesis
    unfolding updateDimensions_attached [OF Some] updateDimensions_attached [OF h]
    by (simp add: hide_cursor_def Let_def)
qed

lemma updateDimensions_retarget:
  assumes "addon_terminal s = Some t" "cols t' = cols t" "rows t' = rows t"
    "opt_fontSize (options t') = opt_fontSize (options t)"
    "opt_lineHeight (options t') = opt_lineHeight (options t)"
    "css_cell t' = css_cell t"
  shows "updateDimensions (s\<lparr>addon_terminal := Some t'\<rparr>) =
         (updateDimensions s)\<lparr>addon_terminal := Some t'\<rparr>"
proof -
  have h: "addon_terminal (s\<lparr>addon_terminal := Some t'\<rparr>) = Some t'" by simp
  show ?thesis
    unfolding updateDimensions_attached [OF assms(1)] updateDimensions_attached [OF h]
    by (simp add: computeLayout_cong [OF assms(4,5,6)] assms(2,3) Let_def split: option.split)
qed

lemma render_cell_cong_state:
  "cellWidth s' = cellWidth s \<Longrightarrow> cellHeight s' = cellHeight s \<Longrightarrow>
   render_cell s' th tp fs ff x y cell ctx = render_cell s th tp fs ff x y cell ctx"
  by (simp add: render_cell_def Let_def)

lemma render_cols_cong_state:
  "cellWidth s' = cellWidth s \<Longrightarrow> cellHeight s' = cellHeight s \<Longrightarrow>
   render_cols s' th tp fs ff line y ks ctx = render_cols s th tp fs ff line y ks ctx"
  by (induction ks arbitrary: ctx)
     (simp_all add: render_cell_cong_state [of s' s] split: option.split)

lemma render_rows_cong:
  assumes "cellWidth s' = cellWidth s" "cellHeight s' = cellHeight s" "cols t' = cols t"
    "viewportY (active t') = viewportY (active t)"
    "buffer_lines (active t') = buffer_lines (active t)"
  shows "render_rows s' t' th tp fs ff rs ctx = render_rows s t th tp fs ff rs ctx"
  using assms
  by (induction rs arbitrary: ctx)
     (simp_all add: render_cols_cong_state [of s' s] getLine_def Let_def split: option.split)

lemma render_content_cong:
  assumes "cellWidth s' = cellWidth s" "cellHeight s' = cellHeight s"
    "scaleFactor (addon_options s') = scaleFactor (addon_options s)"
    "cols t' = cols t" "rows t' = rows t" "options t' = options t"
    "viewportY (active t') = viewportY (active t)"
    "buffer_lines (active t') = buffer_lines (active t)"
  shows "render_content s' t' cv th ctx = render_content s t cv th ctx"
  using assms
  by (simp add: render_content_def render_rows_cong [of s' s t' t] Let_def)

lemma render_cursor_hidden:
  "\<not> showCursor (addon_options s) \<Longrightarrow> render_cursor s t th ctx = ctx"
  by (simp add: render_cursor_def)

lemma render_cursor_drawn:
  "drawn (render_cursor s t (orElse (opt_theme (options t)) empty_theme) ctx) =
   drawn ctx @
   (if showCursor (addon_options s) \<and> cursor_test t
    then [cursor_rect t (cellWidth s) (cellHeight s)] else [])"
  by (auto simp add: render_cursor_def cursor_test_def cursor_rect_def Let_def orElse_def)

lemma render_attached:
  assumes "addon_terminal s = Some t" "addon_canvas (updateDimensions s) = Some cv"
    "addon_ctx (updateDimensions s) = Some cx"
  shows "addon_ctx (render s) =
     Some (render_cursor (updateDimensions s) t (orElse (opt_theme (options t)) empty_theme)
            (render_content (updateDimensions s) t cv
               (orElse (opt_theme (options t)) empty_theme) cx))"
  using assms by (simp add: render_def Let_def)

lemma render_no_context:
  "addon_ctx (updateDimensions s) = None \<Longrightarrow> addon_ctx (render s) = None"
  by (cases "addon_terminal s")
     (simp_all add: render_def Let_def updateDimensions_detached split: option.split)


text \<open>Every operation keeps canvas and context together.\<close>

lemma paired_updateDimensions: "paired s \<Longrightarrow> paired (updateDimensions s)"
  by (cases "addon_terminal s")
     (simp_all add: updateDimensions_detached updateDimensions_attached Let_def paired_def)

lemma paired_new_addon: "paired (new_addon p)"
  by (simp add: paired_def new_addon_def)

lemma paired_activate: "paired s \<Longrightarrow> paired (activate t s)"
  unfolding activate_def by (rule paired_updateDimensions) (simp add: paired_def)

lemma paired_dispose: "paired (dispose s)"
  by (simp add: paired_def dispose_def)

lemma paired_setOptions: "paired (setOptions p s)"
  by (simp add: paired_def)

lemma paired_render: "paired s \<Longrightarrow> paired (render s)"
  using paired_updateDimensions [of s]
  by (auto simp add: paired_def render_def Let_def split: option.split)

lemma frame_hidden:
  assumes "addon_terminal s = Some t" "\<not> showCursor (addon_options s)"
    "addon_canvas (updateDimensions s) = Some cv" "addon_ctx (updateDimensions s) = Some cx"
  shows "frame s =
         drawn (render_content (updateDimensions s) t cv
                  (orElse (opt_theme (options t)) empty_theme) cx)"
  using assms
  by (simp add: frame_def render_attached [OF assms(1,3,4)] render_cursor_hidden)

lemma frame_overlay:
  assumes "addon_terminal s = Some t" "paired s"
  shows "frame s = frame (hide_cursor s) @
     (if showCursor (addon_options s) \<and> cursor_test t
      then [cursor_rect t (cellWidth (render s)) (cellHeight (render s))] else [])"
proof -
  let ?s1 = "updateDimensions s"
  let ?th = "orElse (opt_theme (options t)) empty_theme"
  from updateDimensions_canvas [OF assms(1)]
  obtain cv where cv: "addon_canvas ?s1 = Some cv" by blast
  from paired_updateDimensions [OF assms(2)] cv
  obtain cx where cx: "addon_ctx ?s1 = Some cx" by (auto simp add: paired_def)
  have h: "addon_terminal (hide_cursor s) = Some t" using assms(1) by simp
  have hid: "frame (hide_cursor s) = drawn (render_content ?s1 t cv ?th cx)"
  proof -
    have "frame (hide_cursor s) =
          drawn (render_content (updateDimensions (hide_cursor s)) t cv ?th cx)"
      by (rule frame_hidden [OF h]) (simp_all add: updateDimensions_hide_cursor cv cx)
    also have "\<dots> = drawn (render_content ?s1 t cv ?th cx)"
      by (simp add: updateDimensions_hide_cursor render_content_cong [of "hide_cursor ?s1" ?s1 t t])
    finally show ?thesis .
  qed
  have "frame s = drawn (render_cursor ?s1 t ?th (render_content ?s1 t cv ?th cx))"
    by (simp add: frame_def render_attached [OF assms(1) cv cx])
  then show ?thesis
    by (simp add: render_cursor_drawn hid)
qed

lemma frame_hidden_cursor_position:
  assumes "addon_terminal s = Some t"
  shows "frame (hide_cursor (s\<lparr>addon_terminal := Some (move_cursor x y t)\<rparr>)) =
         frame (hide_cursor s)"
proof -
  let ?t' = "move_cursor x y t"
  let ?h = "hide_cursor s"
  let ?h' = "?h\<lparr>addon_terminal := Some ?t'\<rparr>"
  let ?th = "orElse (opt_theme (options t)) empty_theme"
  have e: "hide_cursor (s\<lparr>addon_terminal := Some ?t'\<rparr>) = ?h'"
    by (simp add: hide_cursor_def)
  have ht: "addon_terminal ?h = Some t" using assms by simp
  have ht': "addon_terminal ?h' = Some ?t'" by simp
  have same: "cols ?t' = cols t" "rows ?t' = rows t" "options ?t' = options t"
    "css_cell ?t' = css_cell t" "viewportY (active ?t') = viewportY (active t)"
    "buffer_lines (active ?t') = buffer_lines (active t)"
    by (simp_all add: move_cursor_def)
  have u: "updateDimensions ?h' = (updateDimensions ?h)\<lparr>addon_terminal := Some ?t'\<rparr>"
    by (rule updateDimensions_retarget [OF ht]) (simp_all add: same)
  from updateDimensions_canvas [OF ht]
  obtain cv where cv: "addon_canvas (updateDimensions ?h) = Some cv" by blast
  show ?thesis
  proof (cases "addon_ctx (updateDimensions ?h)")
    case None
    then show ?thesis
      by (simp add: e frame_def render_no_context u)
  next
    case (Some cx)
    have "frame ?h' = drawn (render_content (updateDimensions ?h') ?t' cv
                               (orElse (opt_theme (options ?t')) empty_theme) cx)"
      by (rule frame_hidden [OF ht']) (simp_all add: u cv Some)
    also have "\<dots> = drawn (render_content (updateDimensions ?h) t cv ?th cx)"
      by (simp add: u same
          render_content_cong [of "(updateDimensions ?h)\<lparr>addon_terminal := Some ?t'\<rparr>"
            "updateDimensions ?h" ?t' t])
    also have "\<dots> = frame ?h"
      by (rule frame_hidden [OF ht, symmetric]) (simp_all add: cv Some)
    finally show ?thesis by (simp add: e)
  qed
qed


text \<open>What the code does: after a render the raster holds what it holds when the cursor
  is not shown, followed, exactly when \<^verbatim>\<open>showCursor\<close> is set and \<^verbatim>\<open>cursorX\<close> and \<^verbatim>\<open>cursorY\<close> as
  read lie in \<open>[0, cols)\<close> and \<open>[0, rows)\<close>, by one more rectangle, painted last: one cell wide
  and high, at alpha 0.5, in the theme's cursor colour or \<^verbatim>\<open>#ffffff\<close>, at column \<^verbatim>\<open>cursorX\<close>
  and viewport row \<^verbatim>\<open>cursorY\<close>. With \<^verbatim>\<open>showCursor\<close> unset the raster is the same wherever the
  cursor is.\<close>

lemma frame_cursor:
  "(addon_terminal s = Some t \<and> paired s \<longrightarrow>
      frame s = frame (hide_cursor s) @
        (if showCursor (addon_options s) \<and> cursor_test t
         then [cursor_rect t (cellWidth (render s)) (cellHeight (render s))] else [])) \<and>
   (addon_terminal s = Some t \<longrightarrow>
      frame (hide_cursor (s\<lparr>addon_terminal := Some (move_cursor x y t)\<rparr>)) =
      frame (hide_cursor s)) \<and>
   cursor_rect t cw ch =
     Rect (case opt_theme (options t) of
             None \<Rightarrow> ''#ffffff''
           | Some th \<Rightarrow> (case cursor th of None \<Rightarrow> ''#ffffff'' | Some c \<Rightarrow> c))
       (1 / 2)
       (real_of_int (buffer_cursorX (active t) * cw)) (real_of_int (buffer_cursorY (active t) * ch))
       (real_of_int cw) (real_of_int ch)"
  using frame_overlay [of s t] frame_hidden_cursor_position [of s t x y]
  by (simp add: cursor_rect_def orElse_def empty_theme_simps split: option.split)

lemma cursor_test_in_viewport:
  "viewportY (active t) = baseY (active t) \<Longrightarrow> cursor_test t = cursor_in_viewport t"
  by (simp add: cursor_test_def cursor_in_viewport_def cursor_viewport_row_def)

text \<open>C6. The claim fails on the code on a view that is scrolled back: the code takes
  \<^verbatim>\<open>cursorY\<close>, the cursor's row within the bottom page, for its row within the viewport. On
  the sample terminal of one row, scrolled back by one line, the viewport shows buffer line
  0 and the cursor is on buffer line 1, so its viewport-relative row is 1, outside
  \<open>[0, rows)\<close>. With \<^verbatim>\<open>showCursor\<close> set, the render paints the highlight all the same, last, on
  viewport row 0, where the cursor is not.\<close>

theorem cursor_painted_outside_viewport:
  "addon_terminal addon_scrolled = Some term_scrolled \<and> paired addon_scrolled \<and>
   showCursor (addon_options addon_scrolled) \<and>
   rows term_scrolled = 1 \<and> viewportY (active term_scrolled) = 0 \<and>
   baseY (active term_scrolled) = 1 \<and> buffer_cursorY (active term_scrolled) = 0 \<and>
   cursor_viewport_row term_scrolled = 1 \<and>
   \<not> cursor_in_viewport term_scrolled \<and>
   frame addon_scrolled =
     frame (hide_cursor addon_scrolled) @ [Rect ''#ffffff'' (1 / 2) 0 0 8 13]"
proof -
  have h: "addon_terminal addon_scrolled = Some term_scrolled"
    by (simp add: addon_scrolled_fields)
  have p: "paired addon_scrolled" by (simp add: paired_def addon_scrolled_fields)
  have sc: "showCursor (addon_options addon_scrolled)" by (simp add: addon_scrolled_fields)
  have t: "rows term_scrolled = 1" "viewportY (active term_scrolled) = 0"
    "baseY (active term_scrolled) = 1" "buffer_cursorY (active term_scrolled) = 0"
    "buffer_cursorX (active term_scrolled) = 0" "cols term_scrolled = 2"
    "opt_theme (options term_scrolled) = None"
    by (simp_all add: term_scrolled_def)
  have r: "cursor_viewport_row term_scrolled = 1" by (simp add: cursor_viewport_row_def t)
  have v: "\<not> cursor_in_viewport term_scrolled" by (simp add: cursor_in_viewport_def r t)
  have c: "cursor_test term_scrolled" by (simp add: cursor_test_def t)
  have l: "(8, 13) = computeLayout term_scrolled (scaleFactor (addon_options addon_scrolled))"
    by (simp add: addon_scrolled_fields computeLayout_term_scrolled)
  have cw: "cellWidth (updateDimensions addon_scrolled) = 8"
    "cellHeight (updateDimensions addon_scrolled) = 13"
    using updateDimensions_decision [OF h l] by simp_all
  have rect: "cursor_rect term_scrolled 8 13 = Rect ''#ffffff'' (1 / 2) 0 0 8 13"
    by (simp add: cursor_rect_def orElse_def empty_theme_simps t)
  from frame_overlay [OF h p] sc c
  have f: "frame addon_scrolled =
      frame (hide_cursor addon_scrolled) @ [Rect ''#ffffff'' (1 / 2) 0 0 8 13]"
    by (simp add: cw rect)
  from h p sc t(1,2,3,4) r v f show ?thesis by blast
qed

end
